theory Spec2Isabelle
  imports Complex_Main
begin

section \<open>Data model of mesh.cpp\<close>

text \<open>
  The type \<open>Real\<close> of the source (a typedef of athena.hpp, \<open>float\<close> or \<open>double\<close>) is
  modelled by the mathematical reals. In \<open>NewTimeStep\<close>, \<open>MeshTest\<close> and the cost
  propagation sums, products and quotients are exact; in \<open>LoadBalancing\<close>, where the
  comparison of two computed costs decides which rank a block goes to, the rounding of
  every arithmetic result is a parameter. Machine \<open>int\<close> and \<open>long int\<close> values are
  modelled by \<open>int\<close>; none of the quantities below comes near the word size.
\<close>

record LogicalLocation =
  lx1 :: int
  lx2 :: int
  lx3 :: int
  level :: int

datatype error =
    NullPointer        \<comment> \<open>dereference of a NULL MeshBlock pointer\<close>
  | OutOfBounds        \<comment> \<open>read or write past the end of an array\<close>
  | FatalError         \<comment> \<open>\<open>throw std::runtime_error\<close>\<close>

text \<open>A C array read \<open>a[i]\<close>: the index has to lie inside the allocation.\<close>

definition rd :: "'a list \<Rightarrow> int \<Rightarrow> error + 'a" where
  "rd a i = (if 0 \<le> i \<and> i < int (length a) then Inr (a ! nat i) else Inl OutOfBounds)"

section \<open>Mesh::NewTimeStep\<close>

text \<open>
  The fields of \<open>Mesh\<close> that \<open>NewTimeStep\<close> touches. \<open>pblock\<close> is the linked list of
  the local MeshBlocks, here the list of their \<open>new_block_dt\<close> in list order.
\<close>

record Mesh =
  pblock :: "real list"
  time :: real
  tlim :: real
  dt :: real
  cfl_number :: real

text \<open>
  Lines 995-1001: \<open>min_dt\<close> starts at the first block's \<open>new_block_dt\<close> (a NULL
  \<open>pblock\<close> is dereferenced there) and the \<open>while\<close> loop folds \<open>std::min\<close> over the
  rest of the list.
\<close>

fun local_min_dt :: "real list \<Rightarrow> error + real" where
  "local_min_dt [] = Inl NullPointer"
| "local_min_dt (b # bs) = Inr (foldl min b bs)"

text \<open>
  \<open>MPI_Allreduce(MPI_IN_PLACE, &min_dt, 1, ..., MPI_MIN, MPI_COMM_WORLD)\<close>: every rank
  contributes its local \<open>min_dt\<close> and receives the minimum of all contributions. The
  other ranks run the same loop over their own block lists \<open>others\<close>.
\<close>

fun gather_min_dt :: "real list list \<Rightarrow> error + real list" where
  "gather_min_dt [] = Inr []"
| "gather_min_dt (bs # rest) =
     (case local_min_dt bs of
        Inl e \<Rightarrow> Inl e
      | Inr d \<Rightarrow> (case gather_min_dt rest of Inl e \<Rightarrow> Inl e | Inr ds \<Rightarrow> Inr (d # ds)))"

definition MPI_Allreduce_MIN :: "real \<Rightarrow> real list \<Rightarrow> real" where
  "MPI_Allreduce_MIN mine theirs = foldl min mine theirs"

definition NewTimeStep :: "Mesh \<Rightarrow> real list list \<Rightarrow> error + Mesh" where
  "NewTimeStep m others =
     (case local_min_dt (pblock m) of
        Inl e \<Rightarrow> Inl e
      | Inr mine \<Rightarrow>
         (case gather_min_dt others of
            Inl e \<Rightarrow> Inl e
          | Inr theirs \<Rightarrow>
             (let min_dt = MPI_Allreduce_MIN mine theirs;
                  dt1 = min (min_dt * cfl_number m) (2 * dt m);
                  dt2 = (if time m < tlim m \<and> tlim m - time m < dt1
                         then tlim m - time m else dt1)
              in Inr (m\<lparr>dt := dt2\<rparr>))))"

section \<open>Cost propagation in Mesh::AdaptiveMeshRefinement\<close>

text \<open>
  Lines 1754-1756: \<open>nlbl\<close> and \<open>dim\<close> from the mesh size.
\<close>

definition nlbl_of :: "int \<Rightarrow> int \<Rightarrow> int" where
  "nlbl_of mesh_nx2 mesh_nx3 = (if mesh_nx3 > 1 then 8 else if mesh_nx2 > 1 then 4 else 2)"

definition dim_of :: "int \<Rightarrow> int \<Rightarrow> nat" where
  "dim_of mesh_nx2 mesh_nx3 = (if mesh_nx3 > 1 then 3 else if mesh_nx2 > 1 then 2 else 1)"

text \<open>Lines 1888-1890: \<open>acost\<close> accumulates \<open>costlist[pg+l]\<close> for \<open>l = 0 .. nlbl-1\<close>.\<close>

fun sum_children :: "real list \<Rightarrow> int \<Rightarrow> int list \<Rightarrow> real \<Rightarrow> error + real" where
  "sum_children costlist pg [] acost = Inr acost"
| "sum_children costlist pg (l # ls) acost =
     (case rd costlist (pg + l) of
        Inl e \<Rightarrow> Inl e
      | Inr c \<Rightarrow> sum_children costlist pg ls (acost + c))"

text \<open>Lines 1884-1892: the body of the loop over the new blocks, for one \<open>n\<close>.\<close>

definition new_block_cost ::
  "int \<Rightarrow> LogicalLocation list \<Rightarrow> real list \<Rightarrow> LogicalLocation list \<Rightarrow> int list \<Rightarrow> int
    \<Rightarrow> error + real" where
  "new_block_cost nlbl loclist costlist newloc newtoold n =
     (case rd newtoold n of
        Inl e \<Rightarrow> Inl e
      | Inr pg \<Rightarrow>
         (case rd newloc n of
            Inl e \<Rightarrow> Inl e
          | Inr nl \<Rightarrow>
             (case rd loclist pg of
                Inl e \<Rightarrow> Inl e
              | Inr ol \<Rightarrow>
                 if level nl \<ge> level ol then rd costlist pg
                 else (case sum_children costlist pg [0..nlbl - 1] 0 of
                         Inl e \<Rightarrow> Inl e
                       | Inr acost \<Rightarrow> Inr (acost / real_of_int nlbl)))))"

text \<open>Line 1883: \<open>for(int n=0; n<ntot; n++)\<close>, filling \<open>newcost\<close> from index 0 upwards.\<close>

fun cost_loop ::
  "int \<Rightarrow> LogicalLocation list \<Rightarrow> real list \<Rightarrow> LogicalLocation list \<Rightarrow> int list \<Rightarrow> int list
    \<Rightarrow> error + real list" where
  "cost_loop nlbl loclist costlist newloc newtoold [] = Inr []"
| "cost_loop nlbl loclist costlist newloc newtoold (n # ns) =
     (case new_block_cost nlbl loclist costlist newloc newtoold n of
        Inl e \<Rightarrow> Inl e
      | Inr c \<Rightarrow>
         (case cost_loop nlbl loclist costlist newloc newtoold ns of
            Inl e \<Rightarrow> Inl e
          | Inr cs \<Rightarrow> Inr (c # cs)))"

definition propagate_costs ::
  "int \<Rightarrow> int \<Rightarrow> LogicalLocation list \<Rightarrow> real list \<Rightarrow> LogicalLocation list \<Rightarrow> int list \<Rightarrow> int
    \<Rightarrow> error + real list" where
  "propagate_costs mesh_nx2 mesh_nx3 loclist costlist newloc newtoold ntot =
     cost_loop (nlbl_of mesh_nx2 mesh_nx3) loclist costlist newloc newtoold [0..ntot - 1]"

text \<open>
  The cost that the spec gives new block \<open>n\<close>: the cost of its pre-AMR image when the
  level stayed or grew, the mean over the \<open>2 ^ d\<close> old blocks starting at the image when
  the block is coarser.
\<close>

definition inherited_cost ::
  "nat \<Rightarrow> LogicalLocation list \<Rightarrow> real list \<Rightarrow> LogicalLocation list \<Rightarrow> int list \<Rightarrow> nat \<Rightarrow> real" where
  "inherited_cost d loclist costlist newloc newtoold n =
     (let pg = nat (newtoold ! n) in
      if level (newloc ! n) \<ge> level (loclist ! pg) then costlist ! pg
      else (\<Sum>l<2 ^ d. costlist ! (pg + l)) / 2 ^ d)"


section \<open>Mesh::LoadBalancing\<close>

definition FLT_MAX :: real where
  "FLT_MAX = 340282346638528859811704183484516925440"

text \<open>
  \<open>fl\<close> is the rounding of \<open>Real\<close> arithmetic: an operation on two \<open>Real\<close> values yields
  \<open>fl\<close> of the exact result, as IEEE 754 arithmetic does short of overflow. Exact
  arithmetic is \<open>fl = (\<lambda>x. x)\<close>. The conversions of \<open>nranks\<close> and \<open>j+1\<close> to \<open>Real\<close>
  are exact.
\<close>

text \<open>Lines 1555-1559: total, minimum and maximum of the cost list.\<close>

definition cost_stats :: "(real \<Rightarrow> real) \<Rightarrow> real list \<Rightarrow> real \<times> real \<times> real" where
  "cost_stats fl clist =
     foldl (\<lambda>(totalcost, mincost, maxcost) c.
              (fl (totalcost + c), min mincost c, max maxcost c))
           (0, FLT_MAX, 0) clist"

record lb_state =
  lb_j :: int
  lb_totalcost :: real
  lb_mycost :: real
  lb_targetcost :: real
  lb_rlist :: "int list"

text \<open>Lines 1565-1578: the body of the loop that runs \<open>i\<close> from \<open>nb-1\<close> down to 0.\<close>

definition assign_step ::
  "(real \<Rightarrow> real) \<Rightarrow> real list \<Rightarrow> lb_state \<Rightarrow> nat \<Rightarrow> error + lb_state" where
  "assign_step fl clist s i =
     (if lb_targetcost s = 0 then Inl FatalError
      else
        let mycost = fl (lb_mycost s + clist ! i);
            rlist = (lb_rlist s)[i := lb_j s]
        in if mycost \<ge> lb_targetcost s \<and> lb_j s > 0 then
             let j = lb_j s - 1;
                 totalcost = fl (lb_totalcost s - mycost)
             in Inr \<lparr>lb_j = j, lb_totalcost = totalcost, lb_mycost = 0,
                     lb_targetcost = fl (totalcost / real_of_int (j + 1)), lb_rlist = rlist\<rparr>
           else Inr (s\<lparr>lb_mycost := mycost, lb_rlist := rlist\<rparr>))"

fun assign_loop ::
  "(real \<Rightarrow> real) \<Rightarrow> real list \<Rightarrow> lb_state \<Rightarrow> nat list \<Rightarrow> error + lb_state" where
  "assign_loop fl clist s [] = Inr s"
| "assign_loop fl clist s (i # is) =
     (case assign_step fl clist s i of
        Inl e \<Rightarrow> Inl e
      | Inr s1 \<Rightarrow> assign_loop fl clist s1 is)"

text \<open>
  Lines 1580-1588. Both call sites pass the member \<open>nslist\<close> as \<open>slist\<close>, so the read of
  \<open>nslist[j]\<close> in line 1584 is a read of \<open>slist[j]\<close>. The state is \<open>(j, slist, nlist)\<close>.
\<close>

definition start_step ::
  "int list \<Rightarrow> nat \<times> int list \<times> int list \<Rightarrow> nat \<Rightarrow> nat \<times> int list \<times> int list" where
  "start_step rl st i =
     (case st of (j, slist, nlist) \<Rightarrow>
        if rl ! i \<noteq> rl ! (i - 1)
        then (j + 1, slist[j + 1 := int i], nlist[j := int i - slist ! j])
        else (j, slist, nlist))"

text \<open>
  The whole function. \<open>nranks\<close> is \<open>Globals::nranks\<close>; \<open>nb\<close> is the length of \<open>clist\<close>
  and of \<open>rlist\<close>; \<open>slist0\<close> and
  \<open>nlist0\<close> are the contents of the two rank-indexed arrays before the call. The result
  is \<open>(rlist, slist, nlist)\<close>.
\<close>

definition LoadBalancing ::
  "(real \<Rightarrow> real) \<Rightarrow> int \<Rightarrow> real list \<Rightarrow> int list \<Rightarrow> int list \<Rightarrow> int list
     \<Rightarrow> error + (int list \<times> int list \<times> int list)" where
  "LoadBalancing fl nranks clist rlist0 slist0 nlist0 =
     (let nb = length clist;
          (total, mincost, maxcost) = cost_stats fl clist;
          s0 = \<lparr>lb_j = nranks - 1, lb_totalcost = total, lb_mycost = 0,
                lb_targetcost = fl (total / real_of_int nranks), lb_rlist = rlist0\<rparr>
      in case assign_loop fl clist s0 (rev [0..<nb]) of
           Inl e \<Rightarrow> Inl e
         | Inr s \<Rightarrow>
            (case foldl (start_step (lb_rlist s)) (0, slist0[0 := 0], nlist0) [1..<nb] of
               (j1, slist1, nlist1) \<Rightarrow>
                 Inr (lb_rlist s, slist1, nlist1[j1 := int nb - slist1 ! j1])))"


section \<open>Mesh::MeshTest\<close>

record cost_report =
  rep_mincost :: real
  rep_maxcost :: real
  rep_totalcost :: real
  rep_nb :: "int list"

text \<open>
  Lines 711-725, the body of the loop over \<open>j\<close> for a fixed level \<open>i\<close>: a block of level
  \<open>i\<close> contributes \<open>costlist[i]\<close> to the three statistics and is counted in
  \<open>nb[i - root_level]\<close>. The printing and the writes to meshtest.dat are not modelled.
\<close>

definition MeshTest_block ::
  "int \<Rightarrow> LogicalLocation list \<Rightarrow> real list \<Rightarrow> int \<Rightarrow> cost_report \<Rightarrow> int \<Rightarrow> error + cost_report" where
  "MeshTest_block root_level loclist costlist i s jj =
     (case rd loclist jj of
        Inl e \<Rightarrow> Inl e
      | Inr l \<Rightarrow>
         if level l = i then
           (case rd costlist i of
              Inl e \<Rightarrow> Inl e
            | Inr c \<Rightarrow>
               Inr \<lparr>rep_mincost = min (rep_mincost s) c,
                    rep_maxcost = max (rep_maxcost s) c,
                    rep_totalcost = rep_totalcost s + c,
                    rep_nb = (rep_nb s)[nat (i - root_level) := rep_nb s ! nat (i - root_level) + 1]\<rparr>)
         else Inr s)"

fun MeshTest_blocks ::
  "int \<Rightarrow> LogicalLocation list \<Rightarrow> real list \<Rightarrow> int \<Rightarrow> cost_report \<Rightarrow> int list \<Rightarrow> error + cost_report" where
  "MeshTest_blocks root_level loclist costlist i s [] = Inr s"
| "MeshTest_blocks root_level loclist costlist i s (jj # js) =
     (case MeshTest_block root_level loclist costlist i s jj of
        Inl e \<Rightarrow> Inl e
      | Inr s1 \<Rightarrow> MeshTest_blocks root_level loclist costlist i s1 js)"

text \<open>Lines 708-756, the loop over the levels \<open>i = root_level .. max_level\<close>.\<close>

fun MeshTest_levels ::
  "int \<Rightarrow> int \<Rightarrow> LogicalLocation list \<Rightarrow> real list \<Rightarrow> cost_report \<Rightarrow> int list \<Rightarrow> error + cost_report" where
  "MeshTest_levels root_level nbtotal loclist costlist s [] = Inr s"
| "MeshTest_levels root_level nbtotal loclist costlist s (i # is) =
     (case MeshTest_blocks root_level loclist costlist i
             (s\<lparr>rep_nb := (rep_nb s)[nat (i - root_level) := 0]\<rparr>) [0..nbtotal - 1] of
        Inl e \<Rightarrow> Inl e
      | Inr s1 \<Rightarrow> MeshTest_levels root_level nbtotal loclist costlist s1 is)"

text \<open>
  Lines 694-695 and 708-770: the statistics that \<open>MeshTest\<close> prints as minimum, maximum
  and (divided by \<open>nbtotal\<close>) average cost. \<open>nb0\<close> is the fresh array \<open>nb\<close> of
  \<open>max_level - root_level + 1\<close> entries.
\<close>

definition MeshTest ::
  "int \<Rightarrow> int \<Rightarrow> int \<Rightarrow> LogicalLocation list \<Rightarrow> real list \<Rightarrow> int list \<Rightarrow> error + cost_report" where
  "MeshTest root_level max_level nbtotal loclist costlist nb0 =
     MeshTest_levels root_level nbtotal loclist costlist
       \<lparr>rep_mincost = FLT_MAX, rep_maxcost = 0, rep_totalcost = 0, rep_nb = nb0\<rparr>
       [root_level..max_level]"


section \<open>Derefinement list of Mesh::AdaptiveMeshRefinement\<close>

text \<open>
  Lines 1806-1817: the scan over one sibling family starting at entry \<open>n\<close>. The offsets
  \<open>(k, j, i)\<close> are visited with \<open>i\<close> fastest; \<open>r\<close> advances by one per offset and
  \<open>lderef[r]\<close> is read at every offset.
\<close>

definition family_offsets :: "int \<Rightarrow> int \<Rightarrow> (int \<times> int \<times> int) list" where
  "family_offsets lk lj = concat (map (\<lambda>k. concat (map (\<lambda>j. map (\<lambda>i. (k, j, i)) [0..1]) [0..lj])) [0..lk])"

fun count_family ::
  "LogicalLocation list \<Rightarrow> int \<Rightarrow> int \<Rightarrow> int \<Rightarrow> (int \<times> int \<times> int) list \<Rightarrow> error + int" where
  "count_family lderef n r rr [] = Inr rr"
| "count_family lderef n r rr ((k, j, i) # os) =
     (case rd lderef n of
        Inl e \<Rightarrow> Inl e
      | Inr loc_n \<Rightarrow>
         (case rd lderef r of
            Inl e \<Rightarrow> Inl e
          | Inr loc_r \<Rightarrow>
             count_family lderef n (r + 1)
               (if lx1 loc_n + i = lx1 loc_r \<and> lx2 loc_n + j = lx2 loc_r \<and> lx3 loc_n + k = lx3 loc_r
                   \<and> level loc_n = level loc_r
                then rr + 1 else rr) os))"

text \<open>
  Lines 1803-1826: the loop over the gathered list. \<open>clderef\<close> holds the entries
  \<open>0 .. ctnd-1\<close> written so far. \<open>x & 1L\<close> is the parity and \<open>x >> 1\<close> the halving of a
  logical coordinate.
\<close>

fun deref_scan ::
  "int \<Rightarrow> int \<Rightarrow> int \<Rightarrow> LogicalLocation list \<Rightarrow> LogicalLocation list \<Rightarrow> int list
     \<Rightarrow> error + LogicalLocation list" where
  "deref_scan nlbl lk lj lderef clderef [] = Inr clderef"
| "deref_scan nlbl lk lj lderef clderef (n # ns) =
     (case rd lderef n of
        Inl e \<Rightarrow> Inl e
      | Inr loc_n \<Rightarrow>
         if lx1 loc_n mod 2 = 0 \<and> lx2 loc_n mod 2 = 0 \<and> lx3 loc_n mod 2 = 0 then
           (case count_family lderef n n 0 (family_offsets lk lj) of
              Inl e \<Rightarrow> Inl e
            | Inr rr \<Rightarrow>
               if rr = nlbl
               then deref_scan nlbl lk lj lderef
                      (clderef @ [\<lparr>lx1 = lx1 loc_n div 2, lx2 = lx2 loc_n div 2, lx3 = lx3 loc_n div 2,
                                   level = level loc_n - 1\<rparr>]) ns
               else deref_scan nlbl lk lj lderef clderef ns)
         else deref_scan nlbl lk lj lderef clderef ns)"

text \<open>
  \<open>std::sort(first, last, cmp)\<close> on the array \<open>a\<close>, the range given by the indices \<open>ifirst\<close>
  and \<open>ilast\<close> of its two ends; the entries outside the range stay. On a range of at most
  16 entries the \<open>std::sort\<close> of libstdc++ is its insertion sort: each entry in turn goes
  to the front when \<open>cmp\<close> puts it before the first entry, and otherwise moves left past
  the entries that \<open>cmp\<close> puts it before. Entries that compare equal keep their order.
  (On a longer range the library partitions first and the order of equal entries is not
  the one given here.)
\<close>

text \<open>\<open>linear_insert\<close> works on the sorted entries in reverse, the nearest first.\<close>

fun linear_insert :: "('a \<Rightarrow> 'a \<Rightarrow> bool) \<Rightarrow> 'a \<Rightarrow> 'a list \<Rightarrow> 'a list" where
  "linear_insert cmp x [] = [x]"
| "linear_insert cmp x (y # ys) = (if cmp x y then y # linear_insert cmp x ys else x # y # ys)"

definition insert_entry :: "('a \<Rightarrow> 'a \<Rightarrow> bool) \<Rightarrow> 'a list \<Rightarrow> 'a \<Rightarrow> 'a list" where
  "insert_entry cmp srt x =
     (if cmp x (hd srt) then x # srt else rev (linear_insert cmp x (rev srt)))"

definition insertion_sort :: "('a \<Rightarrow> 'a \<Rightarrow> bool) \<Rightarrow> 'a list \<Rightarrow> 'a list" where
  "insertion_sort cmp xs = (case xs of [] \<Rightarrow> [] | x # rest \<Rightarrow> foldl (insert_entry cmp) [x] rest)"

definition std_sort :: "('a \<Rightarrow> 'a \<Rightarrow> bool) \<Rightarrow> 'a list \<Rightarrow> nat \<Rightarrow> nat \<Rightarrow> 'a list" where
  "std_sort cmp a ifirst ilast =
     take ifirst a @ insertion_sort cmp (take (ilast - ifirst) (drop ifirst a)) @ drop ilast a"

text \<open>
  Lines 1754-1756, 1799-1830: the list of parents handed to the derefinement loop of lines
  1849-1852, in the order in which that loop visits them. \<open>flagged\<close> are the locations of
  the blocks whose flag is -1, in gid order over all ranks (the contents of \<open>lderef\<close> after
  the all-gather); \<open>Greater\<close> is \<open>LogicalLocation::Greater\<close>, declared in
  meshblocktree.hpp.
\<close>

definition derefinement_parents ::
  "(LogicalLocation \<Rightarrow> LogicalLocation \<Rightarrow> bool) \<Rightarrow> int \<Rightarrow> int \<Rightarrow> LogicalLocation list
     \<Rightarrow> error + LogicalLocation list" where
  "derefinement_parents Greater mesh_nx2 mesh_nx3 flagged =
     (let nlbl = nlbl_of mesh_nx2 mesh_nx3;
          lj = (if mesh_nx2 > 1 then 1 else 0);
          lk = (if mesh_nx3 > 1 then 1 else 0);
          tnderef = int (length flagged)
      in if tnderef > nlbl then
           (case deref_scan nlbl lk lj flagged [] [0..tnderef - 1] of
              Inl e \<Rightarrow> Inl e
            | Inr clderef \<Rightarrow>
               (let ctnd = length clderef
                in if ctnd > 1 then Inr (std_sort Greater clderef 0 (ctnd - 1))
                   else Inr clderef))
         else Inr [])"


section \<open>Same-level migration buffers of Mesh::AdaptiveMeshRefinement\<close>

text \<open>
  The MeshBlock fields read by the packing code: the block size, the index bounds set by
  the constructor (lines 813-829) and the four field arrays, indexed as in the source
  (\<open>u(n,k,j,i)\<close>, \<open>x1f(k,j,i)\<close>).
\<close>

record MeshBlock =
  nx1 :: int
  nx2 :: int
  nx3 :: int
  mb_is :: int
  mb_ie :: int
  mb_js :: int
  mb_je :: int
  mb_ks :: int
  mb_ke :: int
  u :: "int \<Rightarrow> int \<Rightarrow> int \<Rightarrow> int \<Rightarrow> real"
  x1f :: "int \<Rightarrow> int \<Rightarrow> int \<Rightarrow> real"
  x2f :: "int \<Rightarrow> int \<Rightarrow> int \<Rightarrow> real"
  x3f :: "int \<Rightarrow> int \<Rightarrow> int \<Rightarrow> real"

text \<open>Lines 813-829 of the MeshBlock constructor; \<open>NGHOST\<close> is a macro of athena.hpp.\<close>

definition MeshBlock_indices ::
  "int \<Rightarrow> int \<Rightarrow> int \<Rightarrow> int \<Rightarrow>
   (int \<Rightarrow> int \<Rightarrow> int \<Rightarrow> int \<Rightarrow> real) \<Rightarrow> (int \<Rightarrow> int \<Rightarrow> int \<Rightarrow> real) \<Rightarrow>
   (int \<Rightarrow> int \<Rightarrow> int \<Rightarrow> real) \<Rightarrow> (int \<Rightarrow> int \<Rightarrow> int \<Rightarrow> real) \<Rightarrow> MeshBlock" where
  "MeshBlock_indices NGHOST bnx1 bnx2 bnx3 u0 b1 b2 b3 =
     \<lparr>nx1 = bnx1, nx2 = bnx2, nx3 = bnx3,
      mb_is = NGHOST, mb_ie = NGHOST + bnx1 - 1,
      mb_js = (if bnx2 > 1 then NGHOST else 0),
      mb_je = (if bnx2 > 1 then NGHOST + bnx2 - 1 else 0),
      mb_ks = (if bnx3 > 1 then NGHOST else 0),
      mb_ke = (if bnx3 > 1 then NGHOST + bnx3 - 1 else 0),
      u = u0, x1f = b1, x2f = b2, x3f = b3\<rparr>"

text \<open>
  Modelled from the spec: \<open>BufferUtility::Pack4DData\<close>, \<open>Pack3DData\<close>, \<open>Unpack4DData\<close>
  and \<open>Unpack3DData\<close> of utils/buffer_utils.cpp are not part of the source at hand. The
  spec has the sender pack \<open>u\<close> and the face arrays into a buffer of reals; the call sites
  pass the inclusive index bounds \<open>si..ei\<close>, \<open>sj..ej\<close>, \<open>sk..ek\<close> (and \<open>sn..en\<close>) and the
  running offset \<open>p\<close>. The packers copy the box, \<open>i\<close> fastest, to \<open>buf[p], buf[p+1], ...\<close>
  and advance \<open>p\<close> by the number of entries copied; the unpackers read the same positions
  back into the array. A send buffer is the list of the reals written so far, so that
  \<open>p\<close> is its length.
\<close>

definition Pack3DData ::
  "(int \<Rightarrow> int \<Rightarrow> int \<Rightarrow> real) \<Rightarrow> real list \<Rightarrow> int \<Rightarrow> int \<Rightarrow> int \<Rightarrow> int \<Rightarrow> int \<Rightarrow> int \<Rightarrow> real list" where
  "Pack3DData src buf si ei sj ej sk ek =
     buf @ concat (map (\<lambda>k. concat (map (\<lambda>j. map (\<lambda>i. src k j i) [si..ei]) [sj..ej])) [sk..ek])"

definition Pack4DData ::
  "(int \<Rightarrow> int \<Rightarrow> int \<Rightarrow> int \<Rightarrow> real) \<Rightarrow> real list \<Rightarrow> int \<Rightarrow> int \<Rightarrow> int \<Rightarrow> int \<Rightarrow> int \<Rightarrow> int \<Rightarrow> int \<Rightarrow> int
     \<Rightarrow> real list" where
  "Pack4DData src buf sn en si ei sj ej sk ek =
     buf @ concat (map (\<lambda>n. concat (map (\<lambda>k. concat (map (\<lambda>j. map (\<lambda>i. src n k j i) [si..ei])
                                                      [sj..ej])) [sk..ek])) [sn..en])"

text \<open>
  The receiving side: the cells of the box in the order in which they are filled, and the
  loop that fills them from \<open>buf[p], buf[p+1], ...\<close>. Reading past the end of the receive
  buffer is an error.
\<close>

definition box3 :: "int \<Rightarrow> int \<Rightarrow> int \<Rightarrow> int \<Rightarrow> int \<Rightarrow> int \<Rightarrow> (int \<times> int \<times> int) list" where
  "box3 si ei sj ej sk ek =
     concat (map (\<lambda>k. concat (map (\<lambda>j. map (\<lambda>i. (k, j, i)) [si..ei]) [sj..ej])) [sk..ek])"

fun unpack_cells ::
  "real list \<Rightarrow> (int \<times> int \<times> int) list \<Rightarrow> (int \<Rightarrow> int \<Rightarrow> int \<Rightarrow> real) \<Rightarrow> int
     \<Rightarrow> error + ((int \<Rightarrow> int \<Rightarrow> int \<Rightarrow> real) \<times> int)" where
  "unpack_cells buf [] dst p = Inr (dst, p)"
| "unpack_cells buf ((k, j, i) # cs) dst p =
     (case rd buf p of
        Inl e \<Rightarrow> Inl e
      | Inr v \<Rightarrow>
         unpack_cells buf cs
           (\<lambda>k' j' i'. if k' = k \<and> j' = j \<and> i' = i then v else dst k' j' i') (p + 1))"

definition Unpack3DData ::
  "real list \<Rightarrow> (int \<Rightarrow> int \<Rightarrow> int \<Rightarrow> real) \<Rightarrow> int \<Rightarrow> int \<Rightarrow> int \<Rightarrow> int \<Rightarrow> int \<Rightarrow> int \<Rightarrow> int
     \<Rightarrow> error + ((int \<Rightarrow> int \<Rightarrow> int \<Rightarrow> real) \<times> int)" where
  "Unpack3DData buf dst si ei sj ej sk ek p = unpack_cells buf (box3 si ei sj ej sk ek) dst p"

text \<open>
  Lines 1909-1912 and 1946-1950: the size \<open>bssame\<close> of a same-level buffer. \<open>NHYDRO\<close> and
  \<open>MAGNETIC_FIELDS_ENABLED\<close> are macros of the build configuration.
\<close>

definition bssame :: "int \<Rightarrow> bool \<Rightarrow> int \<Rightarrow> int \<Rightarrow> int \<Rightarrow> int \<Rightarrow> int \<Rightarrow> int" where
  "bssame NHYDRO MAGNETIC_FIELDS_ENABLED mesh_nx2 mesh_nx3 bnx1 bnx2 bnx3 =
     (let f2 = (if mesh_nx2 > 1 then 1 else 0);
          f3 = (if mesh_nx3 > 1 then 1 else 0)
      in bnx1 * bnx2 * bnx3 * NHYDRO
         + (if MAGNETIC_FIELDS_ENABLED
            then (bnx1 + 1) * bnx2 * bnx3 + bnx1 * (bnx2 + f2) * bnx3 + bnx1 * bnx2 * (bnx3 + f3)
            else 0))"

text \<open>Lines 2008-2018: what the sender of a same-level block writes to \<open>sendbuf[k]\<close>.\<close>

definition pack_same :: "int \<Rightarrow> bool \<Rightarrow> MeshBlock \<Rightarrow> real list" where
  "pack_same NHYDRO MAGNETIC_FIELDS_ENABLED pb =
     (let b0 = Pack4DData (u pb) [] 0 (NHYDRO - 1)
                 (mb_is pb) (mb_ie pb) (mb_js pb) (mb_je pb) (mb_ks pb) (mb_ke pb)
      in if MAGNETIC_FIELDS_ENABLED then
           (let b1 = Pack3DData (x1f pb) b0
                       (mb_is pb) (mb_ie pb + 1) (mb_js pb) (mb_je pb) (mb_ks pb) (mb_ke pb);
                b2 = Pack3DData (x2f pb) b1
                       (mb_is pb) (mb_ie pb + 1) (mb_js pb) (mb_je pb) (mb_ks pb) (mb_ke pb);
                b3 = Pack3DData (x3f pb) b2
                       (mb_is pb) (mb_ie pb + 1) (mb_js pb) (mb_je pb) (mb_ks pb) (mb_ke pb)
            in b3)
         else b0)"

text \<open>
  Lines 2278-2284: the three face-field reads of the receiver, starting at the offset \<open>p\<close>
  that the unpacking of \<open>u\<close> has reached; the result is the offset after the last read.
\<close>

definition unpack_same_faces :: "real list \<Rightarrow> MeshBlock \<Rightarrow> int \<Rightarrow> error + (MeshBlock \<times> int)" where
  "unpack_same_faces buf pb p =
     (case Unpack3DData buf (x1f pb)
             (mb_is pb) (mb_ie pb + 1) (mb_js pb) (mb_je pb) (mb_ks pb) (mb_ke pb) p of
        Inl e \<Rightarrow> Inl e
      | Inr (d1, p1) \<Rightarrow>
         (case Unpack3DData buf (x2f pb)
                 (mb_is pb) (mb_ie pb + 1) (mb_js pb) (mb_je pb) (mb_ks pb) (mb_ke pb) p1 of
            Inl e \<Rightarrow> Inl e
          | Inr (d2, p2) \<Rightarrow>
             (case Unpack3DData buf (x3f pb)
                     (mb_is pb) (mb_ie pb + 1) (mb_js pb) (mb_je pb) (mb_ks pb) (mb_ke pb) p2 of
                Inl e \<Rightarrow> Inl e
              | Inr (d3, p3) \<Rightarrow> Inr (pb\<lparr>x1f := d1, x2f := d2, x3f := d3\<rparr>, p3))))"


unbundle bit_operations_syntax

section \<open>NeighborBlock::SetNeighbor and MeshBlock::SearchAndSetNeighbors\<close>

datatype neighbor_type = neighbor_face | neighbor_edge | neighbor_corner

datatype BoundaryFace = inner_x1 | outer_x1 | inner_x2 | outer_x2 | inner_x3 | outer_x3

text \<open>
  The fields of a NeighborBlock, each with the prefix \<open>nb_\<close>. \<open>nb_fid\<close> and \<open>nb_eid\<close> are
  \<open>None\<close> where \<open>SetNeighbor\<close> does not assign them (the array slot keeps what it held).
\<close>

record NeighborBlock =
  nb_rank :: int
  nb_level :: int
  nb_gid :: int
  nb_lid :: int
  nb_ox1 :: int
  nb_ox2 :: int
  nb_ox3 :: int
  nb_type :: neighbor_type
  nb_bufid :: int
  nb_targetid :: int
  nb_fi1 :: int
  nb_fi2 :: int
  nb_fid :: "BoundaryFace option"
  nb_eid :: "int option"

text \<open>Lines 1216-1236.\<close>

definition SetNeighbor ::
  "int \<Rightarrow> int \<Rightarrow> int \<Rightarrow> int \<Rightarrow> int \<Rightarrow> int \<Rightarrow> int \<Rightarrow> neighbor_type \<Rightarrow> int \<Rightarrow> int \<Rightarrow> int \<Rightarrow> int
     \<Rightarrow> NeighborBlock" where
  "SetNeighbor irank ilevel igid ilid iox1 iox2 iox3 itype ibid itargetid ifi1 ifi2 =
     \<lparr>nb_rank = irank, nb_level = ilevel, nb_gid = igid, nb_lid = ilid,
      nb_ox1 = iox1, nb_ox2 = iox2, nb_ox3 = iox3, nb_type = itype,
      nb_bufid = ibid, nb_targetid = itargetid, nb_fi1 = ifi1, nb_fi2 = ifi2,
      nb_fid =
        (if itype = neighbor_face then
           (if iox1 = -1 then Some inner_x1
            else if iox1 = 1 then Some outer_x1
            else if iox2 = -1 then Some inner_x2
            else if iox2 = 1 then Some outer_x2
            else if iox3 = -1 then Some inner_x3
            else if iox3 = 1 then Some outer_x3
            else None)
         else None),
      nb_eid =
        (if itype = neighbor_edge then
           (if iox3 = 0 then Some (drop_bit 1 (iox1 + 1) OR ((iox2 + 1) AND 2))
            else if iox2 = 0 then Some (4 + (drop_bit 1 (iox1 + 1) OR ((iox3 + 1) AND 2)))
            else if iox1 = 0 then Some (8 + (drop_bit 1 (iox2 + 1) OR ((iox3 + 1) AND 2)))
            else None)
         else None)\<rparr>"

text \<open>
  A node of the MeshBlockTree as the search reads it: \<open>flag\<close> (true for a leaf),
  \<open>loc\<close> and \<open>gid\<close>.
\<close>

record tree_node =
  tn_flag :: bool
  tn_loc :: LogicalLocation
  tn_gid :: int

text \<open>
  What \<open>SearchAndSetNeighbors\<close> reads besides its own locals. From the block: \<open>loc\<close>,
  \<open>block_size.nx2\<close>, \<open>block_size.nx3\<close>. From the mesh: \<open>multilevel\<close>, \<open>face_only\<close>,
  \<open>maxneighbor_\<close>. The arrays \<open>ranklist\<close> (indexed by gid) and \<open>nslist\<close> (indexed by
  rank) are maps from the index to the entry. \<open>MeshBlockTree::FindNeighbor\<close> (with the
  block's \<open>loc\<close>, its boundary flags and the root grid as further arguments, and NULL as
  \<open>None\<close>), \<open>MeshBlockTree::GetLeaf\<close> and \<open>FindBufferID\<close> are defined in
  meshblocktree.cpp and bvals.cpp; the search is modelled for any such functions.
\<close>

record search_env =
  sb_loc :: LogicalLocation
  sb_nx2 :: int
  sb_nx3 :: int
  sb_multilevel :: bool
  sb_face_only :: bool
  sb_maxneighbor :: int
  sb_ranklist :: "int \<Rightarrow> int"
  sb_nslist :: "int \<Rightarrow> int"
  FindNeighbor :: "int \<Rightarrow> int \<Rightarrow> int \<Rightarrow> tree_node option"
  GetLeaf :: "tree_node \<Rightarrow> int \<Rightarrow> int \<Rightarrow> int \<Rightarrow> tree_node"
  FindBufferID :: "int \<Rightarrow> int \<Rightarrow> int \<Rightarrow> int \<Rightarrow> int \<Rightarrow> int \<Rightarrow> int"

text \<open>
  The locals \<open>bufid\<close> and the members \<open>neighbor\<close> (its first \<open>nneighbor\<close> slots) and
  \<open>nblevel\<close> (as \<open>nblevel k j i\<close>).
\<close>

record search_state =
  s_bufid :: int
  s_neighbor :: "NeighborBlock list"
  s_nblevel :: "int \<Rightarrow> int \<Rightarrow> int \<Rightarrow> int"

text \<open>Lines 1245-1258.\<close>

definition myfx1 :: "search_env \<Rightarrow> int" where "myfx1 e = lx1 (sb_loc e) mod 2"
definition myfx2 :: "search_env \<Rightarrow> int" where "myfx2 e = lx2 (sb_loc e) mod 2"
definition myfx3 :: "search_env \<Rightarrow> int" where "myfx3 e = lx3 (sb_loc e) mod 2"
definition myox1 :: "search_env \<Rightarrow> int" where "myox1 e = (lx1 (sb_loc e) mod 2) * 2 - 1"
definition myox2 :: "search_env \<Rightarrow> int" where
  "myox2 e = (if sb_nx2 e > 1 then (lx2 (sb_loc e) mod 2) * 2 - 1 else 0)"
definition myox3 :: "search_env \<Rightarrow> int" where
  "myox3 e = (if sb_nx3 e > 1 then (lx3 (sb_loc e) mod 2) * 2 - 1 else 0)"
definition nf1 :: "search_env \<Rightarrow> int" where
  "nf1 e = (if sb_multilevel e \<and> sb_nx2 e > 1 then 2 else 1)"
definition nf2 :: "search_env \<Rightarrow> int" where
  "nf2 e = (if sb_multilevel e \<and> sb_nx3 e > 1 then 2 else 1)"

definition set_nblevel ::
  "search_state \<Rightarrow> int \<Rightarrow> int \<Rightarrow> int \<Rightarrow> int \<Rightarrow> search_state" where
  "set_nblevel s k j i v =
     s\<lparr>s_nblevel := (\<lambda>k' j' i'. if k' = k \<and> j' = j \<and> i' = i then v else s_nblevel s k' j' i')\<rparr>"

text \<open>
  \<open>neighbor[nneighbor].SetNeighbor(ranklist[id], nlevel, id, id-nslist[ranklist[id]], ...,
  bufid, tbid, f1, f2); nneighbor++\<close> for the tree node \<open>nd\<close> with gid \<open>id\<close>.
\<close>

definition push_neighbor ::
  "search_env \<Rightarrow> search_state \<Rightarrow> tree_node \<Rightarrow> int \<Rightarrow> int \<Rightarrow> int \<Rightarrow> neighbor_type \<Rightarrow> int \<Rightarrow> int \<Rightarrow> int
     \<Rightarrow> search_state" where
  "push_neighbor e s nd dx dy dz ty tbid f1 f2 =
     s\<lparr>s_neighbor := s_neighbor s @
          [SetNeighbor (sb_ranklist e (tn_gid nd)) (level (tn_loc nd)) (tn_gid nd)
             (tn_gid nd - sb_nslist e (sb_ranklist e (tn_gid nd)))
             dx dy dz ty (s_bufid s) tbid f1 f2]\<rparr>"

definition bump :: "search_state \<Rightarrow> int \<Rightarrow> search_state" where
  "bump s d = s\<lparr>s_bufid := s_bufid s + d\<rparr>"

text \<open>Lines 1271-1298: the body of the loop over the two x1 faces.\<close>

definition x1face :: "search_env \<Rightarrow> search_state \<Rightarrow> int \<Rightarrow> search_state" where
  "x1face e s n =
     (case FindNeighbor e n 0 0 of
        None \<Rightarrow> bump s (nf1 e * nf2 e)
      | Some neibt \<Rightarrow>
         if \<not> tn_flag neibt then
           (let fface = 1 - (n + 1) div 2
            in foldl (\<lambda>sa f2. foldl (\<lambda>sb f1.
                   bump (push_neighbor e sb (GetLeaf e neibt fface f1 f2) n 0 0 neighbor_face
                           (FindBufferID e (- n) 0 0 0 0 (sb_maxneighbor e)) f1 f2) 1)
                 sa [0..nf1 e - 1])
               (set_nblevel s 1 1 (n + 1) (level (tn_loc neibt) + 1)) [0..nf2 e - 1])
         else
           (let tbid = (if level (tn_loc neibt) = level (sb_loc e)
                        then FindBufferID e (- n) 0 0 0 0 (sb_maxneighbor e)
                        else FindBufferID e (- n) 0 0 (myfx2 e) (myfx3 e) (sb_maxneighbor e))
            in bump (push_neighbor e (set_nblevel s 1 1 (n + 1) (level (tn_loc neibt))) neibt n 0 0
                       neighbor_face tbid 0 0)
                 (nf1 e * nf2 e)))"

text \<open>Lines 1303-1330: the x2 faces.\<close>

definition x2face :: "search_env \<Rightarrow> search_state \<Rightarrow> int \<Rightarrow> search_state" where
  "x2face e s n =
     (case FindNeighbor e 0 n 0 of
        None \<Rightarrow> bump s (nf1 e * nf2 e)
      | Some neibt \<Rightarrow>
         if \<not> tn_flag neibt then
           (let fface = 1 - (n + 1) div 2
            in foldl (\<lambda>sa f2. foldl (\<lambda>sb f1.
                   bump (push_neighbor e sb (GetLeaf e neibt f1 fface f2) 0 n 0 neighbor_face
                           (FindBufferID e 0 (- n) 0 0 0 (sb_maxneighbor e)) f1 f2) 1)
                 sa [0..nf1 e - 1])
               (set_nblevel s 1 (n + 1) 1 (level (tn_loc neibt) + 1)) [0..nf2 e - 1])
         else
           (let tbid = (if level (tn_loc neibt) = level (sb_loc e)
                        then FindBufferID e 0 (- n) 0 0 0 (sb_maxneighbor e)
                        else FindBufferID e 0 (- n) 0 (myfx1 e) (myfx3 e) (sb_maxneighbor e))
            in bump (push_neighbor e (set_nblevel s 1 (n + 1) 1 (level (tn_loc neibt))) neibt 0 n 0
                       neighbor_face tbid 0 0)
                 (nf1 e * nf2 e)))"

text \<open>Lines 1335-1362: the x3 faces.\<close>

definition x3face :: "search_env \<Rightarrow> search_state \<Rightarrow> int \<Rightarrow> search_state" where
  "x3face e s n =
     (case FindNeighbor e 0 0 n of
        None \<Rightarrow> bump s (nf1 e * nf2 e)
      | Some neibt \<Rightarrow>
         if \<not> tn_flag neibt then
           (let fface = 1 - (n + 1) div 2
            in foldl (\<lambda>sa f2. foldl (\<lambda>sb f1.
                   bump (push_neighbor e sb (GetLeaf e neibt f1 f2 fface) 0 0 n neighbor_face
                           (FindBufferID e 0 0 (- n) 0 0 (sb_maxneighbor e)) f1 f2) 1)
                 sa [0..nf1 e - 1])
               (set_nblevel s (n + 1) 1 1 (level (tn_loc neibt) + 1)) [0..nf2 e - 1])
         else
           (let tbid = (if level (tn_loc neibt) = level (sb_loc e)
                        then FindBufferID e 0 0 (- n) 0 0 (sb_maxneighbor e)
                        else FindBufferID e 0 0 (- n) (myfx1 e) (myfx2 e) (sb_maxneighbor e))
            in bump (push_neighbor e (set_nblevel s (n + 1) 1 1 (level (tn_loc neibt))) neibt 0 0 n
                       neighbor_face tbid 0 0)
                 (nf1 e * nf2 e)))"

text \<open>Lines 1370-1399: the x1x2 edges, for the inner loop variable \<open>n\<close> and the outer \<open>m\<close>.\<close>

definition x1x2edge :: "search_env \<Rightarrow> int \<Rightarrow> search_state \<Rightarrow> int \<Rightarrow> search_state" where
  "x1x2edge e m s n =
     (case FindNeighbor e n m 0 of
        None \<Rightarrow> bump s (nf2 e)
      | Some neibt \<Rightarrow>
         if \<not> tn_flag neibt then
           (let ff1 = 1 - (n + 1) div 2;
                ff2 = 1 - (m + 1) div 2
            in foldl (\<lambda>sb f1.
                   bump (push_neighbor e sb (GetLeaf e neibt ff1 ff2 f1) n m 0 neighbor_edge
                           (FindBufferID e (- n) (- m) 0 0 0 (sb_maxneighbor e)) f1 0) 1)
                 (set_nblevel s 1 (m + 1) (n + 1) (level (tn_loc neibt) + 1)) [0..nf2 e - 1])
         else
           (let s1 = set_nblevel s 1 (m + 1) (n + 1) (level (tn_loc neibt));
                tbid = (if level (tn_loc neibt) = level (sb_loc e)
                        then FindBufferID e (- n) (- m) 0 0 0 (sb_maxneighbor e)
                        else FindBufferID e (- n) (- m) 0 (myfx3 e) 0 (sb_maxneighbor e))
            in bump (if level (tn_loc neibt) \<ge> level (sb_loc e) \<or> (myox1 e = n \<and> myox2 e = m)
                     then push_neighbor e s1 neibt n m 0 neighbor_edge tbid 0 0
                     else s1)
                 (nf2 e)))"

text \<open>Lines 1406-1435: the x1x3 edges.\<close>

definition x1x3edge :: "search_env \<Rightarrow> int \<Rightarrow> search_state \<Rightarrow> int \<Rightarrow> search_state" where
  "x1x3edge e m s n =
     (case FindNeighbor e n 0 m of
        None \<Rightarrow> bump s (nf1 e)
      | Some neibt \<Rightarrow>
         if \<not> tn_flag neibt then
           (let ff1 = 1 - (n + 1) div 2;
                ff2 = 1 - (m + 1) div 2
            in foldl (\<lambda>sb f1.
                   bump (push_neighbor e sb (GetLeaf e neibt ff1 f1 ff2) n 0 m neighbor_edge
                           (FindBufferID e (- n) 0 (- m) 0 0 (sb_maxneighbor e)) f1 0) 1)
                 (set_nblevel s (m + 1) 1 (n + 1) (level (tn_loc neibt) + 1)) [0..nf1 e - 1])
         else
           (let s1 = set_nblevel s (m + 1) 1 (n + 1) (level (tn_loc neibt));
                tbid = (if level (tn_loc neibt) = level (sb_loc e)
                        then FindBufferID e (- n) 0 (- m) 0 0 (sb_maxneighbor e)
                        else FindBufferID e (- n) 0 (- m) (myfx2 e) 0 (sb_maxneighbor e))
            in bump (if level (tn_loc neibt) \<ge> level (sb_loc e) \<or> (myox1 e = n \<and> myox3 e = m)
                     then push_neighbor e s1 neibt n 0 m neighbor_edge tbid 0 0
                     else s1)
                 (nf1 e)))"

text \<open>Lines 1441-1470: the x2x3 edges.\<close>

definition x2x3edge :: "search_env \<Rightarrow> int \<Rightarrow> search_state \<Rightarrow> int \<Rightarrow> search_state" where
  "x2x3edge e m s n =
     (case FindNeighbor e 0 n m of
        None \<Rightarrow> bump s (nf1 e)
      | Some neibt \<Rightarrow>
         if \<not> tn_flag neibt then
           (let ff1 = 1 - (n + 1) div 2;
                ff2 = 1 - (m + 1) div 2
            in foldl (\<lambda>sb f1.
                   bump (push_neighbor e sb (GetLeaf e neibt f1 ff1 ff2) 0 n m neighbor_edge
                           (FindBufferID e 0 (- n) (- m) 0 0 (sb_maxneighbor e)) f1 0) 1)
                 (set_nblevel s (m + 1) (n + 1) 1 (level (tn_loc neibt) + 1)) [0..nf1 e - 1])
         else
           (let s1 = set_nblevel s (m + 1) (n + 1) 1 (level (tn_loc neibt));
                tbid = (if level (tn_loc neibt) = level (sb_loc e)
                        then FindBufferID e 0 (- n) (- m) 0 0 (sb_maxneighbor e)
                        else FindBufferID e 0 (- n) (- m) (myfx1 e) 0 (sb_maxneighbor e))
            in bump (if level (tn_loc neibt) \<ge> level (sb_loc e) \<or> (myox2 e = n \<and> myox3 e = m)
                     then push_neighbor e s1 neibt 0 n m neighbor_edge tbid 0 0
                     else s1)
                 (nf1 e)))"

text \<open>Lines 1477-1494: the corners, for the loop variables \<open>n\<close> (innermost), \<open>m\<close> and \<open>l\<close>.\<close>

definition corner :: "search_env \<Rightarrow> int \<Rightarrow> int \<Rightarrow> search_state \<Rightarrow> int \<Rightarrow> search_state" where
  "corner e l m s n =
     (case FindNeighbor e n m l of
        None \<Rightarrow> bump s 1
      | Some neibt0 \<Rightarrow>
         (let neibt = (if \<not> tn_flag neibt0
                       then GetLeaf e neibt0 (1 - (n + 1) div 2) (1 - (m + 1) div 2)
                              (1 - (l + 1) div 2)
                       else neibt0);
              s1 = set_nblevel s (l + 1) (m + 1) (n + 1) (level (tn_loc neibt))
          in bump (if level (tn_loc neibt) \<ge> level (sb_loc e)
                      \<or> (myox1 e = n \<and> myox2 e = m \<and> myox3 e = l)
                   then push_neighbor e s1 neibt n m l neighbor_corner
                          (FindBufferID e (- n) (- m) (- l) 0 0 (sb_maxneighbor e)) 0 0
                   else s1)
               1))"

text \<open>
  Lines 1259-1498. The loops \<open>for(int n=-1; n<=1; n+=2)\<close> visit \<open>-1\<close> and then \<open>1\<close>; the
  early returns are the \<open>if\<close>s.
\<close>

definition SearchAndSetNeighbors :: "search_env \<Rightarrow> search_state" where
  "SearchAndSetNeighbors e =
     (let s0 = \<lparr>s_bufid = 0, s_neighbor = [],
                s_nblevel = (\<lambda>k j i. if k = 1 \<and> j = 1 \<and> i = 1 then level (sb_loc e) else - 1)\<rparr>;
          s1 = foldl (x1face e) s0 [- 1, 1]
      in if sb_nx2 e = 1 then s1
         else
          (let s2 = foldl (x2face e) s1 [- 1, 1];
               s3 = (if sb_nx3 e > 1 then foldl (x3face e) s2 [- 1, 1] else s2)
           in if sb_face_only e then s3
              else
               (let s4 = foldl (\<lambda>s m. foldl (x1x2edge e m) s [- 1, 1]) s3 [- 1, 1]
                in if sb_nx3 e = 1 then s4
                   else
                    (let s5 = foldl (\<lambda>s m. foldl (x1x3edge e m) s [- 1, 1]) s4 [- 1, 1];
                         s6 = foldl (\<lambda>s m. foldl (x2x3edge e m) s [- 1, 1]) s5 [- 1, 1];
                         s7 = foldl (\<lambda>s l. foldl (\<lambda>s m. foldl (corner e l m) s [- 1, 1])
                                                s [- 1, 1]) s6 [- 1, 1]
                     in s7))))"

text \<open>
  The position of a direction and its fine-subdivision indices in the scan order: faces
  x1, x2, x3 (the last only when \<open>nx3 > 1\<close>) with \<open>nf1 * nf2\<close> slots each, edges x1x2 with \<open>nf2\<close> slots each, edges x1x3
  and x2x3 with \<open>nf1\<close> slots each, corners with one slot each.
\<close>

definition nfaces :: "search_env \<Rightarrow> int" where
  "nfaces e = nf1 e * nf2 e * (if sb_nx3 e > 1 then 6 else 4)"

definition scan_position :: "search_env \<Rightarrow> int \<Rightarrow> int \<Rightarrow> int \<Rightarrow> int \<Rightarrow> int \<Rightarrow> int" where
  "scan_position e dx dy dz f1 f2 =
     (if dy = 0 \<and> dz = 0 then nf1 e * nf2 e * ((dx + 1) div 2) + f2 * nf1 e + f1
      else if dx = 0 \<and> dz = 0 then nf1 e * nf2 e * (2 + (dy + 1) div 2) + f2 * nf1 e + f1
      else if dx = 0 \<and> dy = 0 then nf1 e * nf2 e * (4 + (dz + 1) div 2) + f2 * nf1 e + f1
      else if dz = 0 then nfaces e + nf2 e * ((dy + 1) + (dx + 1) div 2) + f1
      else if dy = 0 then nfaces e + 4 * nf2 e + nf1 e * ((dz + 1) + (dx + 1) div 2) + f1
      else if dx = 0 then nfaces e + 4 * nf2 e + 4 * nf1 e
                            + nf1 e * ((dz + 1) + (dy + 1) div 2) + f1
      else nfaces e + 4 * nf2 e + 8 * nf1 e + 2 * (dz + 1) + (dy + 1) + (dx + 1) div 2)"

text \<open>
  The number of slots that the scan has passed when it returns, from the early returns of
  lines 1300, 1365 and 1402.
\<close>

definition slots_scanned :: "search_env \<Rightarrow> int" where
  "slots_scanned e =
     (if sb_nx2 e = 1 then 2 * (nf1 e * nf2 e)
      else if sb_face_only e then nfaces e
      else if sb_nx3 e = 1 then nfaces e + 4 * nf2 e
      else nfaces e + 4 * nf2 e + 8 * nf1 e + 8)"


text \<open>The record that \<open>push_neighbor\<close> writes for the tree node \<open>nd\<close> with bufid \<open>bid\<close>.\<close>

definition nbrec ::
  "search_env \<Rightarrow> tree_node \<Rightarrow> int \<Rightarrow> int \<Rightarrow> int \<Rightarrow> neighbor_type \<Rightarrow> int \<Rightarrow> int \<Rightarrow> int \<Rightarrow> int
     \<Rightarrow> NeighborBlock" where
  "nbrec e nd dx dy dz ty bid tbid f1 f2 =
     SetNeighbor (sb_ranklist e (tn_gid nd)) (level (tn_loc nd)) (tn_gid nd)
       (tn_gid nd - sb_nslist e (sb_ranklist e (tn_gid nd))) dx dy dz ty bid tbid f1 f2"

text \<open>
  The records of one direction, with the scan position as bufid: what the loop bodies
  append when the counter stands at the position of the direction.
\<close>

definition x1face_recs :: "search_env \<Rightarrow> int \<Rightarrow> NeighborBlock list" where
  "x1face_recs e n =
     (case FindNeighbor e n 0 0 of
        None \<Rightarrow> []
      | Some neibt \<Rightarrow>
         if \<not> tn_flag neibt then
           concat (map (\<lambda>f2. map (\<lambda>f1.
               nbrec e (GetLeaf e neibt (1 - (n + 1) div 2) f1 f2) n 0 0 neighbor_face
                 (scan_position e n 0 0 f1 f2)
                 (FindBufferID e (- n) 0 0 0 0 (sb_maxneighbor e)) f1 f2)
             [0..nf1 e - 1]) [0..nf2 e - 1])
         else
           [nbrec e neibt n 0 0 neighbor_face (scan_position e n 0 0 0 0)
              (if level (tn_loc neibt) = level (sb_loc e)
               then FindBufferID e (- n) 0 0 0 0 (sb_maxneighbor e)
               else FindBufferID e (- n) 0 0 (myfx2 e) (myfx3 e) (sb_maxneighbor e)) 0 0])"

definition x2face_recs :: "search_env \<Rightarrow> int \<Rightarrow> NeighborBlock list" where
  "x2face_recs e n =
     (case FindNeighbor e 0 n 0 of
        None \<Rightarrow> []
      | Some neibt \<Rightarrow>
         if \<not> tn_flag neibt then
           concat (map (\<lambda>f2. map (\<lambda>f1.
               nbrec e (GetLeaf e neibt f1 (1 - (n + 1) div 2) f2) 0 n 0 neighbor_face
                 (scan_position e 0 n 0 f1 f2)
                 (FindBufferID e 0 (- n) 0 0 0 (sb_maxneighbor e)) f1 f2)
             [0..nf1 e - 1]) [0..nf2 e - 1])
         else
           [nbrec e neibt 0 n 0 neighbor_face (scan_position e 0 n 0 0 0)
              (if level (tn_loc neibt) = level (sb_loc e)
               then FindBufferID e 0 (- n) 0 0 0 (sb_maxneighbor e)
               else FindBufferID e 0 (- n) 0 (myfx1 e) (myfx3 e) (sb_maxneighbor e)) 0 0])"

definition x3face_recs :: "search_env \<Rightarrow> int \<Rightarrow> NeighborBlock list" where
  "x3face_recs e n =
     (case FindNeighbor e 0 0 n of
        None \<Rightarrow> []
      | Some neibt \<Rightarrow>
         if \<not> tn_flag neibt then
           concat (map (\<lambda>f2. map (\<lambda>f1.
               nbrec e (GetLeaf e neibt f1 f2 (1 - (n + 1) div 2)) 0 0 n neighbor_face
                 (scan_position e 0 0 n f1 f2)
                 (FindBufferID e 0 0 (- n) 0 0 (sb_maxneighbor e)) f1 f2)
             [0..nf1 e - 1]) [0..nf2 e - 1])
         else
           [nbrec e neibt 0 0 n neighbor_face (scan_position e 0 0 n 0 0)
              (if level (tn_loc neibt) = level (sb_loc e)
               then FindBufferID e 0 0 (- n) 0 0 (sb_maxneighbor e)
               else FindBufferID e 0 0 (- n) (myfx1 e) (myfx2 e) (sb_maxneighbor e)) 0 0])"

definition x1x2edge_recs :: "search_env \<Rightarrow> int \<Rightarrow> int \<Rightarrow> NeighborBlock list" where
  "x1x2edge_recs e m n =
     (case FindNeighbor e n m 0 of
        None \<Rightarrow> []
      | Some neibt \<Rightarrow>
         if \<not> tn_flag neibt then
           map (\<lambda>f1.
               nbrec e (GetLeaf e neibt (1 - (n + 1) div 2) (1 - (m + 1) div 2) f1) n m 0 neighbor_edge
                 (scan_position e n m 0 f1 0)
                 (FindBufferID e (- n) (- m) 0 0 0 (sb_maxneighbor e)) f1 0)
             [0..nf2 e - 1]
         else if level (tn_loc neibt) \<ge> level (sb_loc e) \<or> (myox1 e = n \<and> myox2 e = m)
         then [nbrec e neibt n m 0 neighbor_edge (scan_position e n m 0 0 0)
                 (if level (tn_loc neibt) = level (sb_loc e)
                  then FindBufferID e (- n) (- m) 0 0 0 (sb_maxneighbor e)
                  else FindBufferID e (- n) (- m) 0 (myfx3 e) 0 (sb_maxneighbor e)) 0 0]
         else [])"

definition x1x3edge_recs :: "search_env \<Rightarrow> int \<Rightarrow> int \<Rightarrow> NeighborBlock list" where
  "x1x3edge_recs e m n =
     (case FindNeighbor e n 0 m of
        None \<Rightarrow> []
      | Some neibt \<Rightarrow>
         if \<not> tn_flag neibt then
           map (\<lambda>f1.
               nbrec e (GetLeaf e neibt (1 - (n + 1) div 2) f1 (1 - (m + 1) div 2)) n 0 m neighbor_edge
                 (scan_position e n 0 m f1 0)
                 (FindBufferID e (- n) 0 (- m) 0 0 (sb_maxneighbor e)) f1 0)
             [0..nf1 e - 1]
         else if level (tn_loc neibt) \<ge> level (sb_loc e) \<or> (myox1 e = n \<and> myox3 e = m)
         then [nbrec e neibt n 0 m neighbor_edge (scan_position e n 0 m 0 0)
                 (if level (tn_loc neibt) = level (sb_loc e)
                  then FindBufferID e (- n) 0 (- m) 0 0 (sb_maxneighbor e)
                  else FindBufferID e (- n) 0 (- m) (myfx2 e) 0 (sb_maxneighbor e)) 0 0]
         else [])"

definition x2x3edge_recs :: "search_env \<Rightarrow> int \<Rightarrow> int \<Rightarrow> NeighborBlock list" where
  "x2x3edge_recs e m n =
     (case FindNeighbor e 0 n m of
        None \<Rightarrow> []
      | Some neibt \<Rightarrow>
         if \<not> tn_flag neibt then
           map (\<lambda>f1.
               nbrec e (GetLeaf e neibt f1 (1 - (n + 1) div 2) (1 - (m + 1) div 2)) 0 n m neighbor_edge
                 (scan_position e 0 n m f1 0)
                 (FindBufferID e 0 (- n) (- m) 0 0 (sb_maxneighbor e)) f1 0)
             [0..nf1 e - 1]
         else if level (tn_loc neibt) \<ge> level (sb_loc e) \<or> (myox2 e = n \<and> myox3 e = m)
         then [nbrec e neibt 0 n m neighbor_edge (scan_position e 0 n m 0 0)
                 (if level (tn_loc neibt) = level (sb_loc e)
                  then FindBufferID e 0 (- n) (- m) 0 0 (sb_maxneighbor e)
                  else FindBufferID e 0 (- n) (- m) (myfx1 e) 0 (sb_maxneighbor e)) 0 0]
         else [])"

definition corner_recs :: "search_env \<Rightarrow> int \<Rightarrow> int \<Rightarrow> int \<Rightarrow> NeighborBlock list" where
  "corner_recs e l m n =
     (case FindNeighbor e n m l of
        None \<Rightarrow> []
      | Some neibt0 \<Rightarrow>
         (let neibt = (if \<not> tn_flag neibt0
                       then GetLeaf e neibt0 (1 - (n + 1) div 2) (1 - (m + 1) div 2)
                              (1 - (l + 1) div 2)
                       else neibt0)
          in if level (tn_loc neibt) \<ge> level (sb_loc e)
                \<or> (myox1 e = n \<and> myox2 e = m \<and> myox3 e = l)
             then [nbrec e neibt n m l neighbor_corner (scan_position e n m l 0 0)
                     (FindBufferID e (- n) (- m) (- l) 0 0 (sb_maxneighbor e)) 0 0]
             else []))"

text \<open>All records of a block, in scan order.\<close>

definition face_recs1 :: "search_env \<Rightarrow> NeighborBlock list" where
  "face_recs1 e = x1face_recs e (- 1) @ x1face_recs e 1"

definition face_recs23 :: "search_env \<Rightarrow> NeighborBlock list" where
  "face_recs23 e =
     x2face_recs e (- 1) @ x2face_recs e 1
     @ (if sb_nx3 e > 1 then x3face_recs e (- 1) @ x3face_recs e 1 else [])"

definition edge_recs12 :: "search_env \<Rightarrow> NeighborBlock list" where
  "edge_recs12 e =
     x1x2edge_recs e (- 1) (- 1) @ x1x2edge_recs e (- 1) 1
     @ x1x2edge_recs e 1 (- 1) @ x1x2edge_recs e 1 1"

definition edge_recs13 :: "search_env \<Rightarrow> NeighborBlock list" where
  "edge_recs13 e =
     x1x3edge_recs e (- 1) (- 1) @ x1x3edge_recs e (- 1) 1
     @ x1x3edge_recs e 1 (- 1) @ x1x3edge_recs e 1 1"

definition edge_recs23 :: "search_env \<Rightarrow> NeighborBlock list" where
  "edge_recs23 e =
     x2x3edge_recs e (- 1) (- 1) @ x2x3edge_recs e (- 1) 1
     @ x2x3edge_recs e 1 (- 1) @ x2x3edge_recs e 1 1"

definition all_corner_recs :: "search_env \<Rightarrow> NeighborBlock list" where
  "all_corner_recs e =
     corner_recs e (- 1) (- 1) (- 1) @ corner_recs e (- 1) (- 1) 1
     @ corner_recs e (- 1) 1 (- 1) @ corner_recs e (- 1) 1 1
     @ corner_recs e 1 (- 1) (- 1) @ corner_recs e 1 (- 1) 1
     @ corner_recs e 1 1 (- 1) @ corner_recs e 1 1 1"

definition all_recs :: "search_env \<Rightarrow> NeighborBlock list" where
  "all_recs e =
     (if sb_nx2 e = 1 then face_recs1 e
      else if sb_face_only e then face_recs1 e @ face_recs23 e
      else if sb_nx3 e = 1 then face_recs1 e @ face_recs23 e @ edge_recs12 e
      else face_recs1 e @ face_recs23 e @ edge_recs12 e @ edge_recs13 e @ edge_recs23 e
           @ all_corner_recs e)"

text \<open>The state of the scan: the counter stands at \<open>b\<close> and the records written are \<open>rs\<close>.\<close>

definition scan_at :: "search_env \<Rightarrow> int \<Rightarrow> NeighborBlock list \<Rightarrow> search_state \<Rightarrow> bool" where
  "scan_at e b rs s \<longleftrightarrow> s_bufid s = b \<and> s_neighbor s = rs"


text \<open>
  The directions \<open>(ox1, ox2, ox3)\<close> in the order in which lines 1270-1494 visit them:
  the x1 faces, the x2 faces, the x3 faces (when \<open>nx3 > 1\<close>), the x1x2, x1x3 and x2x3
  edges, the corners; the innermost loop variable runs fastest. The early returns of lines
  1300, 1365 and 1402 cut the list.
\<close>

definition scan_order :: "search_env \<Rightarrow> (int \<times> int \<times> int) list" where
  "scan_order e =
     [(- 1, 0, 0), (1, 0, 0)]
     @ (if sb_nx2 e = 1 then []
        else [(0, - 1, 0), (0, 1, 0)]
             @ (if sb_nx3 e > 1 then [(0, 0, - 1), (0, 0, 1)] else [])
             @ (if sb_face_only e then []
                else [(- 1, - 1, 0), (1, - 1, 0), (- 1, 1, 0), (1, 1, 0)]
                     @ (if sb_nx3 e = 1 then []
                        else [(- 1, 0, - 1), (1, 0, - 1), (- 1, 0, 1), (1, 0, 1),
                              (0, - 1, - 1), (0, 1, - 1), (0, - 1, 1), (0, 1, 1),
                              (- 1, - 1, - 1), (1, - 1, - 1), (- 1, 1, - 1), (1, 1, - 1),
                              (- 1, - 1, 1), (1, - 1, 1), (- 1, 1, 1), (1, 1, 1)])))"

definition is_face :: "int \<times> int \<times> int \<Rightarrow> bool" where
  "is_face d = (case d of (dx, dy, dz) \<Rightarrow>
     (dy = 0 \<and> dz = 0) \<or> (dx = 0 \<and> dz = 0) \<or> (dx = 0 \<and> dy = 0))"

definition is_edge :: "int \<times> int \<times> int \<Rightarrow> bool" where
  "is_edge d = (case d of (dx, dy, dz) \<Rightarrow> \<not> is_face d \<and> (dx = 0 \<or> dy = 0 \<or> dz = 0))"

text \<open>
  The number of slots that a direction occupies, which is what \<open>bufid\<close> grows by while
  the direction is visited, with or without a neighbor: \<open>nf1 * nf2\<close> for a face, \<open>nf2\<close>
  for an x1x2 edge, \<open>nf1\<close> for an x1x3 or x2x3 edge, 1 for a corner.
\<close>

definition slots_of :: "search_env \<Rightarrow> int \<times> int \<times> int \<Rightarrow> int" where
  "slots_of e d = (case d of (dx, dy, dz) \<Rightarrow>
     if is_face d then nf1 e * nf2 e
     else if dz = 0 then nf2 e
     else if is_edge d then nf1 e
     else 1)"

text \<open>
  The test \<open>myox1==n && myox2==m\<close> of line 1391 and its likes of lines 1427, 1462 and
  1487, for the direction \<open>d\<close>: the components of \<open>d\<close> that are not 0 are those of the
  block's position in its parent.
\<close>

definition own_side :: "search_env \<Rightarrow> int \<times> int \<times> int \<Rightarrow> bool" where
  "own_side e d = (case d of (dx, dy, dz) \<Rightarrow>
     (dx = 0 \<or> myox1 e = dx) \<and> (dy = 0 \<or> myox2 e = dy) \<and> (dz = 0 \<or> myox3 e = dz))"

text \<open>
  The fine-subdivision indices \<open>(fi1, fi2)\<close> of the records written in direction \<open>d\<close>, in
  the order in which they are written. None where \<open>FindNeighbor\<close> returns NULL. Across a
  face: one record per leaf of a finer node, one record for a leaf. Across an edge: one
  record per leaf of a finer node along the edge, one record for a leaf unless the leaf is
  coarser and the edge is not on the block's own side. At a corner: one record unless the
  leaf there is coarser and the corner is not on the block's own side.
\<close>

definition emitted :: "search_env \<Rightarrow> int \<times> int \<times> int \<Rightarrow> (int \<times> int) list" where
  "emitted e d = (case d of (dx, dy, dz) \<Rightarrow>
     (case FindNeighbor e dx dy dz of
        None \<Rightarrow> []
      | Some neibt \<Rightarrow>
         if is_face d then
           (if tn_flag neibt then [(0, 0)]
            else concat (map (\<lambda>f2. map (\<lambda>f1. (f1, f2)) [0..nf1 e - 1]) [0..nf2 e - 1]))
         else if is_edge d then
           (if \<not> tn_flag neibt then map (\<lambda>f1. (f1, 0)) [0..slots_of e d - 1]
            else if level (tn_loc neibt) \<ge> level (sb_loc e) \<or> own_side e d then [(0, 0)]
            else [])
         else
           (let leaf = (if tn_flag neibt then neibt
                        else GetLeaf e neibt (1 - (dx + 1) div 2) (1 - (dy + 1) div 2)
                               (1 - (dz + 1) div 2))
            in if level (tn_loc leaf) \<ge> level (sb_loc e) \<or> own_side e d then [(0, 0)]
               else [])))"

text \<open>
  What a record says about its slot: its direction, its fine-subdivision indices and its
  bufid. \<open>position_slots e d\<close> are the slots of the records of direction \<open>d\<close> when each
  bufid is the scan position.
\<close>

definition direction :: "NeighborBlock \<Rightarrow> int \<times> int \<times> int" where
  "direction r = (nb_ox1 r, nb_ox2 r, nb_ox3 r)"

definition slot_of :: "NeighborBlock \<Rightarrow> (int \<times> int \<times> int) \<times> int \<times> int \<times> int" where
  "slot_of r = (direction r, nb_fi1 r, nb_fi2 r, nb_bufid r)"

definition position_slots ::
  "search_env \<Rightarrow> int \<times> int \<times> int \<Rightarrow> ((int \<times> int \<times> int) \<times> int \<times> int \<times> int) list" where
  "position_slots e d =
     map (\<lambda>(f1, f2). (d, f1, f2, scan_position e (fst d) (fst (snd d)) (snd (snd d)) f1 f2))
         (emitted e d)"

text \<open>The same block when the tree has no leaf in direction \<open>d\<close>.\<close>

definition without_leaf :: "search_env \<Rightarrow> int \<times> int \<times> int \<Rightarrow> search_env" where
  "without_leaf e d =
     e\<lparr>FindNeighbor := (\<lambda>dx dy dz. if d = (dx, dy, dz) then None else FindNeighbor e dx dy dz)\<rparr>"

text \<open>
  A level-3 block of a three-dimensional multilevel mesh at the inner x1 boundary: no leaf
  in the nine directions with \<open>ox1 = -1\<close>, a finer node across the outer x1 face, coarser
  leaves in the directions with \<open>ox3 = -1\<close>, leaves of its own level elsewhere. And a
  block of the same mesh with leaves of its own level in all 26 directions.
\<close>

definition example_tree :: "int \<Rightarrow> int \<Rightarrow> int \<Rightarrow> tree_node option" where
  "example_tree dx dy dz =
     (if dx = - 1 then None
      else if dx = 1 \<and> dy = 0 \<and> dz = 0
      then Some \<lparr>tn_flag = False, tn_loc = \<lparr>lx1 = 1, lx2 = 3, lx3 = 4, level = 3\<rparr>, tn_gid = - 1\<rparr>
      else if dz = - 1
      then Some \<lparr>tn_flag = True,
                 tn_loc = \<lparr>lx1 = dx div 2, lx2 = (3 + dy) div 2, lx3 = 1, level = 2\<rparr>,
                 tn_gid = 5 + dx div 2 + 2 * ((3 + dy) div 2)\<rparr>
      else Some \<lparr>tn_flag = True, tn_loc = \<lparr>lx1 = dx, lx2 = 3 + dy, lx3 = 4 + dz, level = 3\<rparr>,
                 tn_gid = 20 + dx + 3 * dy + 9 * dz\<rparr>)"

definition example_env :: search_env where
  "example_env =
     \<lparr>sb_loc = \<lparr>lx1 = 0, lx2 = 3, lx3 = 4, level = 3\<rparr>, sb_nx2 = 4, sb_nx3 = 4,
      sb_multilevel = True, sb_face_only = False, sb_maxneighbor = 56,
      sb_ranklist = (\<lambda>g. 0), sb_nslist = (\<lambda>r. 0),
      FindNeighbor = example_tree,
      GetLeaf = (\<lambda>nd i j k. \<lparr>tn_flag = True,
                            tn_loc = \<lparr>lx1 = 2 * lx1 (tn_loc nd) + i, lx2 = 2 * lx2 (tn_loc nd) + j,
                                      lx3 = 2 * lx3 (tn_loc nd) + k, level = level (tn_loc nd) + 1\<rparr>,
                            tn_gid = 50 + i + 2 * j + 4 * k\<rparr>),
      FindBufferID = (\<lambda>ox1 ox2 ox3 fi1 fi2 mx. 0)\<rparr>"

definition interior_env :: search_env where
  "interior_env =
     example_env\<lparr>sb_loc := \<lparr>lx1 = 2, lx2 = 3, lx3 = 4, level = 3\<rparr>,
       FindNeighbor := (\<lambda>dx dy dz. Some \<lparr>tn_flag = True,
          tn_loc = \<lparr>lx1 = 2 + dx, lx2 = 3 + dy, lx3 = 4 + dz, level = 3\<rparr>,
          tn_gid = 20 + dx + 3 * dy + 9 * dz\<rparr>)\<rparr>"


section \<open>Properties of NewTimeStep\<close>

lemma foldl_min_Min: "foldl min (a::real) xs = Min (insert a (set xs))"
proof (induction xs arbitrary: a)
  case Nil
  show ?case by simp
next
  case (Cons x xs)
  have step: "foldl min a (x # xs) = Min (insert (min a x) (set xs))"
    using Cons.IH [of "min a x"] by simp
  show ?case
  proof (cases "set xs = {}")
    case True
    then show ?thesis unfolding step by simp
  next
    case False
    then show ?thesis unfolding step
      by (simp add: min.assoc)
  qed
qed

lemma local_min_dt_Min:
  "bs \<noteq> [] \<Longrightarrow> local_min_dt bs = Inr (Min (set bs))"
  by (cases bs) (simp_all add: foldl_min_Min)

lemma gather_min_dt_Min:
  "\<forall>bs \<in> set others. bs \<noteq> [] \<Longrightarrow>
   gather_min_dt others = Inr (map (\<lambda>bs. Min (set bs)) others)"
  by (induction others) (simp_all add: local_min_dt_Min)

lemma Min_of_Mins:
  assumes "\<forall>bs \<in> set others. bs \<noteq> []" and "mine \<noteq> []"
  shows "Min (insert (Min (set mine)) ((\<lambda>bs. Min (set bs)) ` set others))
         = Min (set mine \<union> \<Union> (set ` set others))"
proof (rule antisym)
  let ?L = "insert (Min (set mine)) ((\<lambda>bs. Min (set bs)) ` set others)"
  let ?R = "set mine \<union> \<Union> (set ` set others)"
  have finR: "finite ?R" by simp
  have neR: "?R \<noteq> {}" using assms(2) by simp
  have finL: "finite ?L" by simp
  show "Min ?L \<le> Min ?R"
  proof (rule Min.boundedI [OF finR neR])
    fix x assume "x \<in> ?R"
    then consider "x \<in> set mine" | bs where "bs \<in> set others" "x \<in> set bs" by auto
    then show "Min ?L \<le> x"
    proof cases
      case 1
      have "Min ?L \<le> Min (set mine)" by (rule Min_le [OF finL]) simp
      also have "\<dots> \<le> x" using 1 by simp
      finally show ?thesis .
    next
      case 2
      have "Min ?L \<le> Min (set bs)" by (rule Min_le [OF finL]) (use 2 in auto)
      also have "\<dots> \<le> x" using 2 by simp
      finally show ?thesis .
    qed
  qed
  show "Min ?R \<le> Min ?L"
  proof (rule Min.boundedI [OF finL])
    show "?L \<noteq> {}" by simp
    fix y assume "y \<in> ?L"
    then consider "y = Min (set mine)" | bs where "bs \<in> set others" "y = Min (set bs)"
      by auto
    then show "Min ?R \<le> y"
    proof cases
      case 1
      have "Min (set mine) \<in> set mine" using assms(2) by (intro Min_in) simp_all
      then show ?thesis unfolding 1 by (intro Min_le [OF finR]) simp
    next
      case 2
      have "bs \<noteq> []" using assms(1) 2 by blast
      then have "Min (set bs) \<in> set bs" by (intro Min_in) simp_all
      then show ?thesis unfolding 2 using 2(1) by (intro Min_le [OF finR]) auto
    qed
  qed
qed

text \<open>
  C3. On a mesh whose ranks all hold at least one block, \<open>NewTimeStep\<close> returns, changes
  only \<open>dt\<close>, and the new \<open>dt\<close> is \<open>min (cfl_number * m) (2 * dt_prev)\<close> with \<open>m\<close> the least
  \<open>new_block_dt\<close> over the blocks of all ranks, replaced by \<open>tlim - time\<close> exactly when
  \<open>time < tlim\<close> and \<open>tlim - time\<close> is smaller than that value.
\<close>

theorem NewTimeStep_dt:
  assumes "pblock m \<noteq> []" and "\<forall>bs \<in> set others. bs \<noteq> []"
  defines "mn \<equiv> Min (set (pblock m) \<union> \<Union> (set ` set others))"
  defines "d \<equiv> min (cfl_number m * mn) (2 * dt m)"
  shows "NewTimeStep m others =
           Inr (m\<lparr>dt := (if time m < tlim m \<and> tlim m - time m < d then tlim m - time m else d)\<rparr>)"
proof -
  have "MPI_Allreduce_MIN (Min (set (pblock m))) (map (\<lambda>bs. Min (set bs)) others) = mn"
    unfolding MPI_Allreduce_MIN_def mn_def foldl_min_Min
    using Min_of_Mins [OF assms(2) assms(1)] by simp
  then show ?thesis
    unfolding NewTimeStep_def d_def
    by (simp add: local_min_dt_Min [OF assms(1)] gather_min_dt_Min [OF assms(2)]
                  Let_def mult.commute)
qed

theorem NewTimeStep_dt_witness:
  "NewTimeStep \<lparr>pblock = [4, 2], time = 0, tlim = 10, dt = 5, cfl_number = 1/2\<rparr> [[3], [1, 6]]
     = Inr \<lparr>pblock = [4, 2], time = 0, tlim = 10, dt = 1/2, cfl_number = 1/2\<rparr>
   \<and> NewTimeStep \<lparr>pblock = [4, 2], time = 0, tlim = 1/4, dt = 5, cfl_number = 1/2\<rparr> [[3], [1, 6]]
     = Inr \<lparr>pblock = [4, 2], time = 0, tlim = 1/4, dt = 1/4, cfl_number = 1/2\<rparr>"
  using NewTimeStep_dt [of "\<lparr>pblock = [4, 2], time = 0, tlim = 10, dt = 5, cfl_number = 1/2\<rparr>"
                           "[[3], [1, 6]]"]
        NewTimeStep_dt [of "\<lparr>pblock = [4, 2], time = 0, tlim = 1/4, dt = 5, cfl_number = 1/2\<rparr>"
                           "[[3], [1, 6]]"]
  by simp

section \<open>Properties of the cost propagation\<close>

lemma sum_children_sum:
  "\<forall>l \<in> set ls. 0 \<le> pg + l \<and> pg + l < int (length costlist) \<Longrightarrow>
   sum_children costlist pg ls acost
     = Inr (acost + (\<Sum>l\<leftarrow>ls. costlist ! nat (pg + l)))"
  by (induction ls arbitrary: acost) (simp_all add: rd_def add.assoc)

lemma sum_list_upto_nat:
  "(\<Sum>l\<leftarrow>[0..int k - 1]. f (nat (pg + l))) = (\<Sum>l<k. f (nat pg + l))" if "0 \<le> pg"
proof (induction k)
  case 0
  show ?case by simp
next
  case (Suc k)
  have "[0..int (Suc k) - 1] = [0..int k - 1] @ [int k]"
    using upto_rec2 [of 0 "int k"] by simp
  then show ?case using Suc that by (simp add: nat_add_distrib)
qed

lemma cost_loop_map:
  "\<forall>n \<in> set ns. new_block_cost nlbl loclist costlist newloc newtoold n = Inr (f n) \<Longrightarrow>
   cost_loop nlbl loclist costlist newloc newtoold ns = Inr (map f ns)"
  by (induction ns) simp_all

lemma nlbl_of_pow: "nlbl_of a b = 2 ^ dim_of a b"
  by (simp add: nlbl_of_def dim_of_def)

lemma new_block_cost_value:
  assumes n: "n < length newtoold" "n < length newloc"
    and pg: "0 \<le> newtoold ! n" "nat (newtoold ! n) < length loclist"
            "nat (newtoold ! n) < length costlist"
    and ch: "level (newloc ! n) < level (loclist ! nat (newtoold ! n)) \<Longrightarrow>
             nat (newtoold ! n) + 2 ^ dim_of a b \<le> length costlist"
  shows "new_block_cost (nlbl_of a b) loclist costlist newloc newtoold (int n)
           = Inr (inherited_cost (dim_of a b) loclist costlist newloc newtoold n)"
proof (cases "level (newloc ! n) \<ge> level (loclist ! nat (newtoold ! n))")
  have pgi: "newtoold ! n < int (length loclist)" "newtoold ! n < int (length costlist)"
    using pg by linarith+
  case True
  then show ?thesis using n pg pgi
    by (simp add: new_block_cost_def rd_def inherited_cost_def)
next
  case False
  let ?pg = "newtoold ! n"
  let ?k = "(2::nat) ^ dim_of a b"
  have k: "nlbl_of a b = int ?k" by (simp add: nlbl_of_pow)
  have le: "nat ?pg + ?k \<le> length costlist" using ch False by simp
  have "\<forall>l \<in> set [0..int ?k - 1]. 0 \<le> ?pg + l \<and> ?pg + l < int (length costlist)"
  proof
    fix l assume "l \<in> set [0..int ?k - 1]"
    then have l: "0 \<le> l" "l < int ?k" by simp_all
    have "int (nat ?pg + ?k) \<le> int (length costlist)" using le by (simp only: of_nat_le_iff)
    then have "?pg + int ?k \<le> int (length costlist)" using pg(1) by simp
    then show "0 \<le> ?pg + l \<and> ?pg + l < int (length costlist)" using l pg(1) by linarith
  qed
  then have "sum_children costlist ?pg [0..int ?k - 1] 0
               = Inr (\<Sum>l<?k. costlist ! (nat ?pg + l))"
    using sum_children_sum [of "[0..int ?k - 1]" ?pg costlist 0]
          sum_list_upto_nat [OF pg(1), of "\<lambda>i. costlist ! i" ?k] by simp
  moreover have "newtoold ! n < int (length loclist)" "newtoold ! n < int (length costlist)"
    using pg by linarith+
  ultimately show ?thesis using n pg False
    by (simp add: new_block_cost_def rd_def inherited_cost_def k)
qed

text \<open>
  C7. On lists that are indexed within their bounds, the cost loop returns a cost for
  every new block \<open>n\<close>: with \<open>pg = newtoold[n]\<close>, the cost is \<open>costlist[pg]\<close> when the new
  level is greater than or equal to the old one, and the arithmetic mean of the
  \<open>2 ^ dim\<close> costs \<open>costlist[pg] .. costlist[pg + 2 ^ dim - 1]\<close> of the replaced children
  when the new block is coarser.
\<close>

theorem propagate_costs_inherit:
  assumes len: "ntot = length newtoold" "ntot = length newloc"
               "length costlist = length loclist"
    and pg: "\<forall>n<ntot. 0 \<le> newtoold ! n \<and> nat (newtoold ! n) < length loclist"
    and ch: "\<forall>n<ntot. level (newloc ! n) < level (loclist ! nat (newtoold ! n)) \<longrightarrow>
                nat (newtoold ! n) + 2 ^ dim_of mesh_nx2 mesh_nx3 \<le> length loclist"
  shows "\<exists>newcost.
           propagate_costs mesh_nx2 mesh_nx3 loclist costlist newloc newtoold (int ntot)
             = Inr newcost
         \<and> length newcost = ntot
         \<and> (\<forall>n<ntot. let pg = nat (newtoold ! n) in
              (level (newloc ! n) \<ge> level (loclist ! pg) \<longrightarrow> newcost ! n = costlist ! pg) \<and>
              (level (newloc ! n) < level (loclist ! pg) \<longrightarrow>
                 newcost ! n = (\<Sum>l<2 ^ dim_of mesh_nx2 mesh_nx3. costlist ! (pg + l))
                               / 2 ^ dim_of mesh_nx2 mesh_nx3))"
proof -
  let ?f = "\<lambda>i. inherited_cost (dim_of mesh_nx2 mesh_nx3) loclist costlist newloc newtoold (nat i)"
  have "\<forall>i \<in> set [0..int ntot - 1].
          new_block_cost (nlbl_of mesh_nx2 mesh_nx3) loclist costlist newloc newtoold i
            = Inr (?f i)"
  proof
    fix i assume "i \<in> set [0..int ntot - 1]"
    then have i: "0 \<le> i" "nat i < ntot" by auto
    show "new_block_cost (nlbl_of mesh_nx2 mesh_nx3) loclist costlist newloc newtoold i
            = Inr (?f i)"
      using new_block_cost_value [of "nat i" newtoold newloc loclist costlist mesh_nx2 mesh_nx3]
            i len pg ch by simp
  qed
  then have run: "propagate_costs mesh_nx2 mesh_nx3 loclist costlist newloc newtoold (int ntot)
                    = Inr (map ?f [0..int ntot - 1])"
    unfolding propagate_costs_def by (rule cost_loop_map)
  have nth: "map ?f [0..int ntot - 1] ! n
               = inherited_cost (dim_of mesh_nx2 mesh_nx3) loclist costlist newloc newtoold n"
    if "n < ntot" for n
    using that by (simp add: nth_upto)
  show ?thesis
    unfolding run
    by (intro exI [of _ "map ?f [0..int ntot - 1]"] conjI refl allI impI)
       (simp_all add: nth inherited_cost_def Let_def)
qed

theorem propagate_costs_inherit_witness:
  "\<exists>newcost.
     propagate_costs 1 1
       [\<lparr>lx1 = 0, lx2 = 0, lx3 = 0, level = 2\<rparr>, \<lparr>lx1 = 1, lx2 = 0, lx3 = 0, level = 2\<rparr>,
        \<lparr>lx1 = 1, lx2 = 0, lx3 = 0, level = 1\<rparr>]
       [1, 3, 5]
       [\<lparr>lx1 = 0, lx2 = 0, lx3 = 0, level = 1\<rparr>, \<lparr>lx1 = 2, lx2 = 0, lx3 = 0, level = 2\<rparr>,
        \<lparr>lx1 = 3, lx2 = 0, lx3 = 0, level = 2\<rparr>]
       [0, 2, 2] 3 = Inr newcost
     \<and> newcost ! 0 = 2 \<and> newcost ! 1 = 5 \<and> newcost ! 2 = 5"
  using propagate_costs_inherit [of 3 "[0, 2, 2]"
       "[\<lparr>lx1 = 0, lx2 = 0, lx3 = 0, level = 1\<rparr>, \<lparr>lx1 = 2, lx2 = 0, lx3 = 0, level = 2\<rparr>,
        \<lparr>lx1 = 3, lx2 = 0, lx3 = 0, level = 2\<rparr>]"
       "[1, 3, 5]"
       "[\<lparr>lx1 = 0, lx2 = 0, lx3 = 0, level = 2\<rparr>, \<lparr>lx1 = 1, lx2 = 0, lx3 = 0, level = 2\<rparr>,
        \<lparr>lx1 = 1, lx2 = 0, lx3 = 0, level = 1\<rparr>]" 1 1]
  by (simp add: dim_of_def numeral_3_eq_3 numeral_2_eq_2 All_less_Suc lessThan_Suc) blast

section \<open>Load balancing\<close>

text \<open>
  C1. With the positive costs 100, 1, 1 and three ranks, \<open>LoadBalancing\<close> returns
  normally: all three blocks go to rank 2, ranks 0 and 1 own no block, \<open>nlist[0]\<close> is set
  to 3 and \<open>nlist[1]\<close>, \<open>nlist[2]\<close> keep what they held. No fatal error is raised. This holds
  for every rounding that is exact on the numbers 0, 1, 2, 34, 100, 101 and 102, as the
  rounding of \<open>float\<close> and of \<open>double\<close> is, and so for exact arithmetic.
\<close>

theorem LoadBalancing_leaves_ranks_empty:
  assumes "fl 0 = 0" "fl 1 = 1" "fl 2 = 2" "fl 34 = 34" "fl 100 = 100" "fl 101 = 101"
    "fl 102 = 102"
  shows "LoadBalancing fl 3 [100, 1, 1] [r0, r1, r2] [s0, s1, s2] [n0, n1, n2]
           = Inr ([2, 2, 2], [0, s1, s2], [3, n1, n2])"
  using assms
  by (simp add: LoadBalancing_def cost_stats_def assign_step_def start_step_def FLT_MAX_def
                Let_def upt_rec)

theorem LoadBalancing_leaves_ranks_empty_witness:
  "LoadBalancing (\<lambda>x. x) 3 [100, 1, 1] [0, 0, 0] [7, 8, 9] [4, 5, 6]
     = Inr ([2, 2, 2], [0, 8, 9], [3, 5, 6])"
  using LoadBalancing_leaves_ranks_empty [of "\<lambda>x. x" 0 0 0 7 8 9 4 5 6] by simp

section \<open>Mesh test\<close>

text \<open>
  C9. For two blocks of logical level 1 with costs 1 and 3 and \<open>root_level = 1\<close>,
  \<open>MeshTest\<close> reports minimum 3, maximum 3 and total 6: each block contributes
  \<open>costlist[1]\<close>, the entry at the level, where the costs of the blocks have minimum 1
  and total 4.
\<close>

theorem MeshTest_costs_indexed_by_level:
  "MeshTest 1 1 2
     [\<lparr>lx1 = 0, lx2 = 0, lx3 = 0, level = 1\<rparr>, \<lparr>lx1 = 1, lx2 = 0, lx3 = 0, level = 1\<rparr>]
     [1, 3] [n0]
   = Inr \<lparr>rep_mincost = 3, rep_maxcost = 3, rep_totalcost = 6, rep_nb = [2]\<rparr>"
  by (simp add: MeshTest_def MeshTest_block_def rd_def upto_rec1 FLT_MAX_def)

section \<open>Derefinement list\<close>

text \<open>
  C2. In one dimension (\<open>nlbl = 2\<close>), when the two children at level 2 of the parent
  \<open>(level 1, lx1 = 0)\<close> are the only blocks flagged -1, the list of parents to derefine
  is empty: the gate \<open>tnderef > nlbl\<close> skips the scan, and the parent is not derefined.
\<close>

theorem single_family_not_derefined:
  "derefinement_parents Greater 1 1
     [\<lparr>lx1 = 0, lx2 = 0, lx3 = 0, level = 2\<rparr>, \<lparr>lx1 = 1, lx2 = 0, lx3 = 0, level = 2\<rparr>]
   = Inr []"
  by (simp add: derefinement_parents_def nlbl_of_def)

text \<open>
  C6. In one dimension, with the sibling pairs \<open>(level 2; lx1 = 0, 1)\<close> and
  \<open>(level 3; lx1 = 4, 5)\<close> flagged -1, the parents are visited in the order level 1,
  level 2, for every comparison \<open>Greater\<close>: the sorted range ends before the last parent.
\<close>

theorem derefinement_order_not_deepest_first:
  "derefinement_parents Greater 1 1
     [\<lparr>lx1 = 0, lx2 = 0, lx3 = 0, level = 2\<rparr>, \<lparr>lx1 = 1, lx2 = 0, lx3 = 0, level = 2\<rparr>,
      \<lparr>lx1 = 4, lx2 = 0, lx3 = 0, level = 3\<rparr>, \<lparr>lx1 = 5, lx2 = 0, lx3 = 0, level = 3\<rparr>]
   = Inr [\<lparr>lx1 = 0, lx2 = 0, lx3 = 0, level = 1\<rparr>, \<lparr>lx1 = 2, lx2 = 0, lx3 = 0, level = 2\<rparr>]"
  by (simp add: derefinement_parents_def nlbl_of_def rd_def family_offsets_def std_sort_def
                insertion_sort_def upto_rec1)

text \<open>
  C10. In one dimension, with the flagged list \<open>(level 2; lx1 = 0)\<close>, \<open>(level 2; lx1 = 1)\<close>,
  \<open>(level 3; lx1 = 4)\<close> (\<open>tnderef = 3 > nlbl = 2\<close>), the family scan that starts at the
  last entry reads \<open>lderef[3]\<close>, one past the end of the list.
\<close>

theorem family_scan_reads_past_end:
  "derefinement_parents Greater 1 1
     [\<lparr>lx1 = 0, lx2 = 0, lx3 = 0, level = 2\<rparr>, \<lparr>lx1 = 1, lx2 = 0, lx3 = 0, level = 2\<rparr>,
      \<lparr>lx1 = 4, lx2 = 0, lx3 = 0, level = 3\<rparr>]
   = Inl OutOfBounds"
  by (simp add: derefinement_parents_def nlbl_of_def rd_def family_offsets_def upto_rec1)

section \<open>Same-level migration buffers\<close>

text \<open>
  C5. For a 4 x 4 x 1 block of a two-dimensional mesh with \<open>NGHOST = 2\<close>, \<open>NHYDRO = 5\<close> and
  magnetic fields, \<open>bssame\<close> is 136 but the sender writes 140 reals: after \<open>u\<close> (80) and
  \<open>x1f\<close> (20) it packs \<open>x2f\<close> over \<open>i = is .. ie+1\<close>, \<open>j = js .. je\<close>, the extents of \<open>x1f\<close>,
  and \<open>x3f\<close> likewise. The receiver, reading the same extents from the 136 reals it was
  sent, reads past their end.
\<close>

theorem pack_same_differs_from_bssame:
  "bssame 5 True 4 1 4 4 1 = 136
   \<and> length (pack_same 5 True (MeshBlock_indices 2 4 4 1 u0 b1 b2 b3)) = 140
   \<and> take 20 (drop 100 (pack_same 5 True (MeshBlock_indices 2 4 4 1 u0 b1 b2 b3)))
       = concat (map (\<lambda>j. map (\<lambda>i. b2 0 j i) [2, 3, 4, 5, 6]) [2, 3, 4, 5])
   \<and> unpack_same_faces (replicate 136 0) (MeshBlock_indices 2 4 4 1 u0 b1 b2 b3) 80
       = Inl OutOfBounds"
  by (simp add: bssame_def pack_same_def MeshBlock_indices_def Pack4DData_def Pack3DData_def
                unpack_same_faces_def Unpack3DData_def box3_def rd_def upto_rec1 numeral_eq_Suc)

section \<open>Buffer ids of the neighbor search\<close>

lemma nf_cases: "nf1 e = 1 \<or> nf1 e = 2" "nf2 e = 1 \<or> nf2 e = 2"
  by (simp_all add: nf1_def nf2_def)

lemma scan_at_set_nblevel [simp]: "scan_at e b rs (set_nblevel s k j i v) = scan_at e b rs s"
  by (simp add: scan_at_def set_nblevel_def)

lemma scan_at_bump: "scan_at e b rs s \<Longrightarrow> scan_at e (b + d) rs (bump s d)"
  by (simp add: scan_at_def bump_def)

lemma scan_at_push_bump:
  "scan_at e b rs s \<Longrightarrow> b' = b + d \<Longrightarrow>
   rs' = rs @ [nbrec e nd dx dy dz ty b tbid f1 f2] \<Longrightarrow>
   scan_at e b' rs' (bump (push_neighbor e s nd dx dy dz ty tbid f1 f2) d)"
  by (simp add: scan_at_def bump_def push_neighbor_def nbrec_def)

lemma scan_at_push:
  "scan_at e b rs s \<Longrightarrow>
   rs' = rs @ [nbrec e nd dx dy dz ty b tbid f1 f2] \<Longrightarrow>
   scan_at e b rs' (push_neighbor e s nd dx dy dz ty tbid f1 f2)"
  by (simp add: scan_at_def push_neighbor_def nbrec_def)

lemma x1face_recs_step:
  assumes n: "n = - 1 \<or> n = 1"
    and at: "scan_at e b rs s"
    and b: "b = nf1 e * nf2 e * (0 + (n + 1) div 2)"
    and b': "b' = b + nf1 e * nf2 e"
  shows "scan_at e b' (rs @ x1face_recs e n) (x1face e s n)"
proof -
  have pos: "scan_position e n 0 0 f1 f2 = b + f2 * nf1 e + f1" for f1 f2
    using n by (auto simp add: scan_position_def b)
  show ?thesis
  proof (cases "FindNeighbor e n 0 0")
    case None
    then show ?thesis using at by (simp add: x1face_def x1face_recs_def scan_at_bump b')
  next
    case (Some neibt)
    show ?thesis
    proof (cases "tn_flag neibt")
      case True
      then show ?thesis using Some at
        by (simp add: x1face_def x1face_recs_def Let_def pos b' scan_at_push_bump)
    next
      case False
      then show ?thesis using Some at nf_cases [of e]
        by (auto simp add: x1face_def x1face_recs_def Let_def upto_rec1 pos b'
                 scan_at_def bump_def push_neighbor_def nbrec_def set_nblevel_def add_ac)
    qed
  qed
qed

lemma x2face_recs_step:
  assumes n: "n = - 1 \<or> n = 1"
    and at: "scan_at e b rs s"
    and b: "b = nf1 e * nf2 e * (2 + (n + 1) div 2)"
    and b': "b' = b + nf1 e * nf2 e"
  shows "scan_at e b' (rs @ x2face_recs e n) (x2face e s n)"
proof -
  have pos: "scan_position e 0 n 0 f1 f2 = b + f2 * nf1 e + f1" for f1 f2
    using n by (auto simp add: scan_position_def b)
  show ?thesis
  proof (cases "FindNeighbor e 0 n 0")
    case None
    then show ?thesis using at by (simp add: x2face_def x2face_recs_def scan_at_bump b')
  next
    case (Some neibt)
    show ?thesis
    proof (cases "tn_flag neibt")
      case True
      then show ?thesis using Some at
        by (simp add: x2face_def x2face_recs_def Let_def pos b' scan_at_push_bump)
    next
      case False
      then show ?thesis using Some at nf_cases [of e]
        by (auto simp add: x2face_def x2face_recs_def Let_def upto_rec1 pos b'
                 scan_at_def bump_def push_neighbor_def nbrec_def set_nblevel_def add_ac)
    qed
  qed
qed

lemma x3face_recs_step:
  assumes n: "n = - 1 \<or> n = 1"
    and at: "scan_at e b rs s"
    and b: "b = nf1 e * nf2 e * (4 + (n + 1) div 2)"
    and b': "b' = b + nf1 e * nf2 e"
  shows "scan_at e b' (rs @ x3face_recs e n) (x3face e s n)"
proof -
  have pos: "scan_position e 0 0 n f1 f2 = b + f2 * nf1 e + f1" for f1 f2
    using n by (auto simp add: scan_position_def b)
  show ?thesis
  proof (cases "FindNeighbor e 0 0 n")
    case None
    then show ?thesis using at by (simp add: x3face_def x3face_recs_def scan_at_bump b')
  next
    case (Some neibt)
    show ?thesis
    proof (cases "tn_flag neibt")
      case True
      then show ?thesis using Some at
        by (simp add: x3face_def x3face_recs_def Let_def pos b' scan_at_push_bump)
    next
      case False
      then show ?thesis using Some at nf_cases [of e]
        by (auto simp add: x3face_def x3face_recs_def Let_def upto_rec1 pos b'
                 scan_at_def bump_def push_neighbor_def nbrec_def set_nblevel_def add_ac)
    qed
  qed
qed

lemma x1x2edge_recs_step:
  assumes n: "n = - 1 \<or> n = 1" and m: "m = - 1 \<or> m = 1"
    and at: "scan_at e b rs s"
    and b: "b = nfaces e + nf2 e * ((m + 1) + (n + 1) div 2)"
    and b': "b' = b + nf2 e"
  shows "scan_at e b' (rs @ x1x2edge_recs e m n) (x1x2edge e m s n)"
proof -
  have pos: "scan_position e n m 0 f1 f2 = b + f1" for f1 f2
    using n m by (auto simp add: scan_position_def b)
  show ?thesis
  proof (cases "FindNeighbor e n m 0")
    case None
    then show ?thesis using at by (simp add: x1x2edge_def x1x2edge_recs_def scan_at_bump b')
  next
    case (Some neibt)
    show ?thesis
    proof (cases "tn_flag neibt")
      case True
      then show ?thesis using Some at
        by (simp add: x1x2edge_def x1x2edge_recs_def Let_def pos b' scan_at_push_bump scan_at_bump)
    next
      case False
      then show ?thesis using Some at nf_cases [of e]
        by (auto simp add: x1x2edge_def x1x2edge_recs_def Let_def upto_rec1 pos b'
                 scan_at_def bump_def push_neighbor_def nbrec_def set_nblevel_def add_ac)
    qed
  qed
qed

lemma x1x3edge_recs_step:
  assumes n: "n = - 1 \<or> n = 1" and m: "m = - 1 \<or> m = 1"
    and at: "scan_at e b rs s"
    and b: "b = nfaces e + 4 * nf2 e + nf1 e * ((m + 1) + (n + 1) div 2)"
    and b': "b' = b + nf1 e"
  shows "scan_at e b' (rs @ x1x3edge_recs e m n) (x1x3edge e m s n)"
proof -
  have pos: "scan_position e n 0 m f1 f2 = b + f1" for f1 f2
    using n m by (auto simp add: scan_position_def b)
  show ?thesis
  proof (cases "FindNeighbor e n 0 m")
    case None
    then show ?thesis using at by (simp add: x1x3edge_def x1x3edge_recs_def scan_at_bump b')
  next
    case (Some neibt)
    show ?thesis
    proof (cases "tn_flag neibt")
      case True
      then show ?thesis using Some at
        by (simp add: x1x3edge_def x1x3edge_recs_def Let_def pos b' scan_at_push_bump scan_at_bump)
    next
      case False
      then show ?thesis using Some at nf_cases [of e]
        by (auto simp add: x1x3edge_def x1x3edge_recs_def Let_def upto_rec1 pos b'
                 scan_at_def bump_def push_neighbor_def nbrec_def set_nblevel_def add_ac)
    qed
  qed
qed

lemma x2x3edge_recs_step:
  assumes n: "n = - 1 \<or> n = 1" and m: "m = - 1 \<or> m = 1"
    and at: "scan_at e b rs s"
    and b: "b = nfaces e + 4 * nf2 e + 4 * nf1 e + nf1 e * ((m + 1) + (n + 1) div 2)"
    and b': "b' = b + nf1 e"
  shows "scan_at e b' (rs @ x2x3edge_recs e m n) (x2x3edge e m s n)"
proof -
  have pos: "scan_position e 0 n m f1 f2 = b + f1" for f1 f2
    using n m by (auto simp add: scan_position_def b)
  show ?thesis
  proof (cases "FindNeighbor e 0 n m")
    case None
    then show ?thesis using at by (simp add: x2x3edge_def x2x3edge_recs_def scan_at_bump b')
  next
    case (Some neibt)
    show ?thesis
    proof (cases "tn_flag neibt")
      case True
      then show ?thesis using Some at
        by (simp add: x2x3edge_def x2x3edge_recs_def Let_def pos b' scan_at_push_bump scan_at_bump)
    next
      case False
      then show ?thesis using Some at nf_cases [of e]
        by (auto simp add: x2x3edge_def x2x3edge_recs_def Let_def upto_rec1 pos b'
                 scan_at_def bump_def push_neighbor_def nbrec_def set_nblevel_def add_ac)
    qed
  qed
qed

lemma corner_recs_step:
  assumes n: "n = - 1 \<or> n = 1" and m: "m = - 1 \<or> m = 1" and l: "l = - 1 \<or> l = 1"
    and at: "scan_at e b rs s"
    and b: "b = nfaces e + 4 * nf2 e + 8 * nf1 e + (2 * (l + 1) + (m + 1) + (n + 1) div 2)"
    and b': "b' = b + 1"
  shows "scan_at e b' (rs @ corner_recs e l m n) (corner e l m s n)"
proof -
  have pos: "scan_position e n m l f1 f2 = b" for f1 f2
    using n m l by (auto simp add: scan_position_def b)
  show ?thesis
  proof (cases "FindNeighbor e n m l")
    case None
    then show ?thesis using at by (simp add: corner_def corner_recs_def scan_at_bump b')
  next
    case (Some neibt)
    then show ?thesis using at
      by (simp add: corner_def corner_recs_def Let_def pos b' scan_at_push_bump scan_at_bump)
  qed
qed

lemma x1faces_recs:
  assumes "scan_at e (0 * (nf1 e * nf2 e)) rs s"
  shows "scan_at e (2 * (nf1 e * nf2 e)) (rs @ x1face_recs e (- 1) @ x1face_recs e 1)
           (foldl (x1face e) s [- 1, 1])"
proof -
  have 1: "scan_at e (1 * (nf1 e * nf2 e)) (rs @ x1face_recs e (- 1)) (x1face e s (- 1))"
    by (rule x1face_recs_step [OF _ assms]) simp_all
  have "scan_at e (2 * (nf1 e * nf2 e)) ((rs @ x1face_recs e (- 1)) @ x1face_recs e 1)
          (x1face e (x1face e s (- 1)) 1)"
    by (rule x1face_recs_step [OF _ 1]) simp_all
  then show ?thesis by simp
qed

lemma x2faces_recs:
  assumes "scan_at e (2 * (nf1 e * nf2 e)) rs s"
  shows "scan_at e (4 * (nf1 e * nf2 e)) (rs @ x2face_recs e (- 1) @ x2face_recs e 1)
           (foldl (x2face e) s [- 1, 1])"
proof -
  have 1: "scan_at e (3 * (nf1 e * nf2 e)) (rs @ x2face_recs e (- 1)) (x2face e s (- 1))"
    by (rule x2face_recs_step [OF _ assms]) simp_all
  have "scan_at e (4 * (nf1 e * nf2 e)) ((rs @ x2face_recs e (- 1)) @ x2face_recs e 1)
          (x2face e (x2face e s (- 1)) 1)"
    by (rule x2face_recs_step [OF _ 1]) simp_all
  then show ?thesis by simp
qed

lemma x3faces_recs:
  assumes "scan_at e (4 * (nf1 e * nf2 e)) rs s"
  shows "scan_at e (6 * (nf1 e * nf2 e)) (rs @ x3face_recs e (- 1) @ x3face_recs e 1)
           (foldl (x3face e) s [- 1, 1])"
proof -
  have 1: "scan_at e (5 * (nf1 e * nf2 e)) (rs @ x3face_recs e (- 1)) (x3face e s (- 1))"
    by (rule x3face_recs_step [OF _ assms]) simp_all
  have "scan_at e (6 * (nf1 e * nf2 e)) ((rs @ x3face_recs e (- 1)) @ x3face_recs e 1)
          (x3face e (x3face e s (- 1)) 1)"
    by (rule x3face_recs_step [OF _ 1]) simp_all
  then show ?thesis by simp
qed

lemma x1x2edges_recs:
  assumes "scan_at e (nfaces e) rs s"
  shows "scan_at e (nfaces e + 4 * nf2 e) (rs @ edge_recs12 e)
           (foldl (\<lambda>s m. foldl (x1x2edge e m) s [- 1, 1]) s [- 1, 1])"
proof -
  let ?s1 = "x1x2edge e (- 1) s (- 1)"
  let ?s2 = "x1x2edge e (- 1) ?s1 1"
  let ?s3 = "x1x2edge e 1 ?s2 (- 1)"
  let ?s4 = "x1x2edge e 1 ?s3 1"
  let ?r1 = "rs @ x1x2edge_recs e (- 1) (- 1)"
  let ?r2 = "?r1 @ x1x2edge_recs e (- 1) 1"
  let ?r3 = "?r2 @ x1x2edge_recs e 1 (- 1)"
  let ?r4 = "?r3 @ x1x2edge_recs e 1 1"
  have 1: "scan_at e (nfaces e + nf2 e) ?r1 ?s1"
    by (rule x1x2edge_recs_step [OF _ _ assms]) simp_all
  have 2: "scan_at e (nfaces e + 2 * nf2 e) ?r2 ?s2"
    by (rule x1x2edge_recs_step [OF _ _ 1]) simp_all
  have 3: "scan_at e (nfaces e + 3 * nf2 e) ?r3 ?s3"
    by (rule x1x2edge_recs_step [OF _ _ 2]) simp_all
  have "scan_at e (nfaces e + 4 * nf2 e) ?r4 ?s4"
    by (rule x1x2edge_recs_step [OF _ _ 3]) simp_all
  then show ?thesis by (simp add: edge_recs12_def)
qed

lemma x1x3edges_recs:
  assumes "scan_at e (nfaces e + 4 * nf2 e) rs s"
  shows "scan_at e (nfaces e + 4 * nf2 e + 4 * nf1 e) (rs @ edge_recs13 e)
           (foldl (\<lambda>s m. foldl (x1x3edge e m) s [- 1, 1]) s [- 1, 1])"
proof -
  let ?s1 = "x1x3edge e (- 1) s (- 1)"
  let ?s2 = "x1x3edge e (- 1) ?s1 1"
  let ?s3 = "x1x3edge e 1 ?s2 (- 1)"
  let ?s4 = "x1x3edge e 1 ?s3 1"
  let ?r1 = "rs @ x1x3edge_recs e (- 1) (- 1)"
  let ?r2 = "?r1 @ x1x3edge_recs e (- 1) 1"
  let ?r3 = "?r2 @ x1x3edge_recs e 1 (- 1)"
  let ?r4 = "?r3 @ x1x3edge_recs e 1 1"
  have 1: "scan_at e (nfaces e + 4 * nf2 e + nf1 e) ?r1 ?s1"
    by (rule x1x3edge_recs_step [OF _ _ assms]) simp_all
  have 2: "scan_at e (nfaces e + 4 * nf2 e + 2 * nf1 e) ?r2 ?s2"
    by (rule x1x3edge_recs_step [OF _ _ 1]) simp_all
  have 3: "scan_at e (nfaces e + 4 * nf2 e + 3 * nf1 e) ?r3 ?s3"
    by (rule x1x3edge_recs_step [OF _ _ 2]) simp_all
  have "scan_at e (nfaces e + 4 * nf2 e + 4 * nf1 e) ?r4 ?s4"
    by (rule x1x3edge_recs_step [OF _ _ 3]) simp_all
  then show ?thesis by (simp add: edge_recs13_def)
qed

lemma x2x3edges_recs:
  assumes "scan_at e (nfaces e + 4 * nf2 e + 4 * nf1 e) rs s"
  shows "scan_at e (nfaces e + 4 * nf2 e + 4 * nf1 e + 4 * nf1 e) (rs @ edge_recs23 e)
           (foldl (\<lambda>s m. foldl (x2x3edge e m) s [- 1, 1]) s [- 1, 1])"
proof -
  let ?s1 = "x2x3edge e (- 1) s (- 1)"
  let ?s2 = "x2x3edge e (- 1) ?s1 1"
  let ?s3 = "x2x3edge e 1 ?s2 (- 1)"
  let ?s4 = "x2x3edge e 1 ?s3 1"
  let ?r1 = "rs @ x2x3edge_recs e (- 1) (- 1)"
  let ?r2 = "?r1 @ x2x3edge_recs e (- 1) 1"
  let ?r3 = "?r2 @ x2x3edge_recs e 1 (- 1)"
  let ?r4 = "?r3 @ x2x3edge_recs e 1 1"
  have 1: "scan_at e (nfaces e + 4 * nf2 e + 4 * nf1 e + nf1 e) ?r1 ?s1"
    by (rule x2x3edge_recs_step [OF _ _ assms]) simp_all
  have 2: "scan_at e (nfaces e + 4 * nf2 e + 4 * nf1 e + 2 * nf1 e) ?r2 ?s2"
    by (rule x2x3edge_recs_step [OF _ _ 1]) simp_all
  have 3: "scan_at e (nfaces e + 4 * nf2 e + 4 * nf1 e + 3 * nf1 e) ?r3 ?s3"
    by (rule x2x3edge_recs_step [OF _ _ 2]) simp_all
  have "scan_at e (nfaces e + 4 * nf2 e + 4 * nf1 e + 4 * nf1 e) ?r4 ?s4"
    by (rule x2x3edge_recs_step [OF _ _ 3]) simp_all
  then show ?thesis by (simp add: edge_recs23_def)
qed

lemma corners_recs:
  assumes "scan_at e (nfaces e + 4 * nf2 e + 8 * nf1 e) rs s"
  shows "scan_at e (nfaces e + 4 * nf2 e + 8 * nf1 e + 8) (rs @ all_corner_recs e)
           (foldl (\<lambda>s l. foldl (\<lambda>s m. foldl (corner e l m) s [- 1, 1]) s [- 1, 1]) s [- 1, 1])"
proof -
  let ?b = "nfaces e + 4 * nf2 e + 8 * nf1 e"
  let ?s1 = "corner e (- 1) (- 1) s (- 1)"
  let ?r1 = "rs @ corner_recs e (- 1) (- 1) (- 1)"
  let ?s2 = "corner e (- 1) (- 1) ?s1 1"
  let ?r2 = "?r1 @ corner_recs e (- 1) (- 1) 1"
  let ?s3 = "corner e (- 1) 1 ?s2 (- 1)"
  let ?r3 = "?r2 @ corner_recs e (- 1) 1 (- 1)"
  let ?s4 = "corner e (- 1) 1 ?s3 1"
  let ?r4 = "?r3 @ corner_recs e (- 1) 1 1"
  let ?s5 = "corner e 1 (- 1) ?s4 (- 1)"
  let ?r5 = "?r4 @ corner_recs e 1 (- 1) (- 1)"
  let ?s6 = "corner e 1 (- 1) ?s5 1"
  let ?r6 = "?r5 @ corner_recs e 1 (- 1) 1"
  let ?s7 = "corner e 1 1 ?s6 (- 1)"
  let ?r7 = "?r6 @ corner_recs e 1 1 (- 1)"
  let ?s8 = "corner e 1 1 ?s7 1"
  let ?r8 = "?r7 @ corner_recs e 1 1 1"
  have 1: "scan_at e (?b + 1) ?r1 ?s1"
    by (rule corner_recs_step [OF _ _ _ assms]) simp_all
  have 2: "scan_at e (?b + 2) ?r2 ?s2"
    by (rule corner_recs_step [OF _ _ _ 1]) simp_all
  have 3: "scan_at e (?b + 3) ?r3 ?s3"
    by (rule corner_recs_step [OF _ _ _ 2]) simp_all
  have 4: "scan_at e (?b + 4) ?r4 ?s4"
    by (rule corner_recs_step [OF _ _ _ 3]) simp_all
  have 5: "scan_at e (?b + 5) ?r5 ?s5"
    by (rule corner_recs_step [OF _ _ _ 4]) simp_all
  have 6: "scan_at e (?b + 6) ?r6 ?s6"
    by (rule corner_recs_step [OF _ _ _ 5]) simp_all
  have 7: "scan_at e (?b + 7) ?r7 ?s7"
    by (rule corner_recs_step [OF _ _ _ 6]) simp_all
  have "scan_at e (?b + 8) ?r8 ?s8"
    by (rule corner_recs_step [OF _ _ _ 7]) simp_all
  then show ?thesis by (simp add: all_corner_recs_def)
qed

lemma SearchAndSetNeighbors_scan:
  "scan_at e (slots_scanned e) (all_recs e) (SearchAndSetNeighbors e)"
proof -
  define s0 where "s0 = \<lparr>s_bufid = 0, s_neighbor = [],
      s_nblevel = (\<lambda>k j i. if k = 1 \<and> j = 1 \<and> i = 1 then level (sb_loc e) else - 1)\<rparr>"
  define s1 where "s1 = foldl (x1face e) s0 [- 1, 1]"
  define s2 where "s2 = foldl (x2face e) s1 [- 1, 1]"
  define s3 where "s3 = (if sb_nx3 e > 1 then foldl (x3face e) s2 [- 1, 1] else s2)"
  define s4 where "s4 = foldl (\<lambda>s m. foldl (x1x2edge e m) s [- 1, 1]) s3 [- 1, 1]"
  define s5 where "s5 = foldl (\<lambda>s m. foldl (x1x3edge e m) s [- 1, 1]) s4 [- 1, 1]"
  define s6 where "s6 = foldl (\<lambda>s m. foldl (x2x3edge e m) s [- 1, 1]) s5 [- 1, 1]"
  define s7 where "s7 = foldl (\<lambda>s l. foldl (\<lambda>s m. foldl (corner e l m) s [- 1, 1])
                                           s [- 1, 1]) s6 [- 1, 1]"
  have i0: "scan_at e (0 * (nf1 e * nf2 e)) [] s0" by (simp add: scan_at_def s0_def)
  have i1: "scan_at e (2 * (nf1 e * nf2 e)) (face_recs1 e) s1"
    unfolding s1_def using x1faces_recs [OF i0] by (simp add: face_recs1_def)
  have i2: "scan_at e (4 * (nf1 e * nf2 e))
              (face_recs1 e @ x2face_recs e (- 1) @ x2face_recs e 1) s2"
    unfolding s2_def using x2faces_recs [OF i1] by simp
  have i3: "scan_at e (nfaces e) (face_recs1 e @ face_recs23 e) s3"
  proof (cases "sb_nx3 e > 1")
    case True
    then show ?thesis using x3faces_recs [OF i2]
      by (simp add: s3_def nfaces_def face_recs23_def mult.commute)
  next
    case False
    then show ?thesis using i2 by (simp add: s3_def nfaces_def face_recs23_def mult.commute)
  qed
  have i4: "scan_at e (nfaces e + 4 * nf2 e) ((face_recs1 e @ face_recs23 e) @ edge_recs12 e) s4"
    unfolding s4_def by (rule x1x2edges_recs [OF i3])
  have i5: "scan_at e (nfaces e + 4 * nf2 e + 4 * nf1 e)
              (((face_recs1 e @ face_recs23 e) @ edge_recs12 e) @ edge_recs13 e) s5"
    unfolding s5_def by (rule x1x3edges_recs [OF i4])
  have "scan_at e (nfaces e + 4 * nf2 e + 4 * nf1 e + 4 * nf1 e)
              ((((face_recs1 e @ face_recs23 e) @ edge_recs12 e) @ edge_recs13 e)
                 @ edge_recs23 e) s6"
    unfolding s6_def by (rule x2x3edges_recs [OF i5])
  then have i6: "scan_at e (nfaces e + 4 * nf2 e + 8 * nf1 e)
              ((((face_recs1 e @ face_recs23 e) @ edge_recs12 e) @ edge_recs13 e)
                 @ edge_recs23 e) s6"
    by (simp add: scan_at_def)
  have i7: "scan_at e (nfaces e + 4 * nf2 e + 8 * nf1 e + 8)
              (((((face_recs1 e @ face_recs23 e) @ edge_recs12 e) @ edge_recs13 e)
                 @ edge_recs23 e) @ all_corner_recs e) s7"
    unfolding s7_def by (rule corners_recs [OF i6])
  have run: "SearchAndSetNeighbors e =
               (if sb_nx2 e = 1 then s1
                else if sb_face_only e then s3
                else if sb_nx3 e = 1 then s4 else s7)"
    by (simp add: SearchAndSetNeighbors_def Let_def s0_def s1_def s2_def s3_def s4_def s5_def
                  s6_def s7_def)
  show ?thesis
    unfolding run all_recs_def slots_scanned_def using i1 i3 i4 i7 by simp
qed

lemma SearchAndSetNeighbors_recs:
  "s_neighbor (SearchAndSetNeighbors e) = all_recs e"
  using SearchAndSetNeighbors_scan [of e] by (simp add: scan_at_def)

lemma SearchAndSetNeighbors_count:
  "s_bufid (SearchAndSetNeighbors e) = slots_scanned e"
  using SearchAndSetNeighbors_scan [of e] by (simp add: scan_at_def)

lemma slot_of_nbrec [simp]:
  "slot_of (nbrec e nd dx dy dz ty bid tbid f1 f2) = ((dx, dy, dz), f1, f2, bid)"
  by (simp add: slot_of_def direction_def nbrec_def SetNeighbor_def)

lemma direction_nbrec [simp]:
  "direction (nbrec e nd dx dy dz ty bid tbid f1 f2) = (dx, dy, dz)"
  by (simp add: direction_def nbrec_def SetNeighbor_def)

lemma without_leaf_simps [simp]:
  "sb_loc (without_leaf e d) = sb_loc e"
  "sb_nx2 (without_leaf e d) = sb_nx2 e"
  "sb_nx3 (without_leaf e d) = sb_nx3 e"
  "sb_multilevel (without_leaf e d) = sb_multilevel e"
  "sb_face_only (without_leaf e d) = sb_face_only e"
  "sb_maxneighbor (without_leaf e d) = sb_maxneighbor e"
  "sb_ranklist (without_leaf e d) = sb_ranklist e"
  "sb_nslist (without_leaf e d) = sb_nslist e"
  "GetLeaf (without_leaf e d) = GetLeaf e"
  "FindBufferID (without_leaf e d) = FindBufferID e"
  "FindNeighbor (without_leaf e d) dx dy dz
     = (if d = (dx, dy, dz) then None else FindNeighbor e dx dy dz)"
  by (simp_all add: without_leaf_def)

lemma without_leaf_derived [simp]:
  "nf1 (without_leaf e d) = nf1 e"
  "nf2 (without_leaf e d) = nf2 e"
  "nfaces (without_leaf e d) = nfaces e"
  "myfx1 (without_leaf e d) = myfx1 e"
  "myfx2 (without_leaf e d) = myfx2 e"
  "myfx3 (without_leaf e d) = myfx3 e"
  "myox1 (without_leaf e d) = myox1 e"
  "myox2 (without_leaf e d) = myox2 e"
  "myox3 (without_leaf e d) = myox3 e"
  "scan_position (without_leaf e d) = scan_position e"
  "slots_scanned (without_leaf e d) = slots_scanned e"
  "nbrec (without_leaf e d) = nbrec e"
  by (simp_all add: nf1_def nf2_def nfaces_def myfx1_def myfx2_def myfx3_def myox1_def
        myox2_def myox3_def scan_position_def slots_scanned_def nbrec_def fun_eq_iff)

lemma x1face_slots:
  assumes n: "n = - 1 \<or> n = 1"
  shows "map slot_of (x1face_recs e n) = position_slots e (n, 0, 0)"
proof (cases "FindNeighbor e n 0 0")
  case None
  then show ?thesis
    by (simp add: x1face_recs_def position_slots_def emitted_def)
next
  case (Some neibt)
  have cls: "is_face (n, 0, 0)"
    using n by (auto simp add: is_face_def is_edge_def)
  have own: "own_side e (n, 0, 0) \<longleftrightarrow> own_side e (n, 0, 0)"
    using n by (auto simp add: own_side_def)
  have sl: "slots_of e (n, 0, 0) = nf1 e * nf2 e"
    using n by (auto simp add: slots_of_def is_face_def is_edge_def)
  show ?thesis
    using Some
    by (simp add: x1face_recs_def position_slots_def emitted_def cls own sl Let_def
          map_concat comp_def)
qed

lemma x1face_direction:
  assumes "r \<in> set (x1face_recs e n)"
  shows "direction r = (n, 0, 0)"
  using assms
  by (auto simp add: x1face_recs_def Let_def split: option.splits if_splits)

lemma x1face_without_leaf:
  "x1face_recs (without_leaf e d) n
     = filter (\<lambda>r. direction r \<noteq> d) (x1face_recs e n)"
proof (cases "d = (n, 0, 0)")
  case True
  have "filter (\<lambda>r. direction r \<noteq> d) (x1face_recs e n) = []"
    unfolding filter_empty_conv using x1face_direction [of _ e n] True by auto
  moreover have "x1face_recs (without_leaf e d) n = []"
    using True by (simp add: x1face_recs_def)
  ultimately show ?thesis by simp
next
  case False
  have "filter (\<lambda>r. direction r \<noteq> d) (x1face_recs e n) = x1face_recs e n"
    unfolding filter_id_conv using x1face_direction [of _ e n] False by auto
  moreover have "x1face_recs (without_leaf e d) n = x1face_recs e n"
    using False by (simp add: x1face_recs_def cong: option.case_cong if_cong)
  ultimately show ?thesis by simp
qed

lemma x2face_slots:
  assumes n: "n = - 1 \<or> n = 1"
  shows "map slot_of (x2face_recs e n) = position_slots e (0, n, 0)"
proof (cases "FindNeighbor e 0 n 0")
  case None
  then show ?thesis
    by (simp add: x2face_recs_def position_slots_def emitted_def)
next
  case (Some neibt)
  have cls: "is_face (0, n, 0)"
    using n by (auto simp add: is_face_def is_edge_def)
  have own: "own_side e (0, n, 0) \<longleftrightarrow> own_side e (0, n, 0)"
    using n by (auto simp add: own_side_def)
  have sl: "slots_of e (0, n, 0) = nf1 e * nf2 e"
    using n by (auto simp add: slots_of_def is_face_def is_edge_def)
  show ?thesis
    using Some
    by (simp add: x2face_recs_def position_slots_def emitted_def cls own sl Let_def
          map_concat comp_def)
qed

lemma x2face_direction:
  assumes "r \<in> set (x2face_recs e n)"
  shows "direction r = (0, n, 0)"
  using assms
  by (auto simp add: x2face_recs_def Let_def split: option.splits if_splits)

lemma x2face_without_leaf:
  "x2face_recs (without_leaf e d) n
     = filter (\<lambda>r. direction r \<noteq> d) (x2face_recs e n)"
proof (cases "d = (0, n, 0)")
  case True
  have "filter (\<lambda>r. direction r \<noteq> d) (x2face_recs e n) = []"
    unfolding filter_empty_conv using x2face_direction [of _ e n] True by auto
  moreover have "x2face_recs (without_leaf e d) n = []"
    using True by (simp add: x2face_recs_def)
  ultimately show ?thesis by simp
next
  case False
  have "filter (\<lambda>r. direction r \<noteq> d) (x2face_recs e n) = x2face_recs e n"
    unfolding filter_id_conv using x2face_direction [of _ e n] False by auto
  moreover have "x2face_recs (without_leaf e d) n = x2face_recs e n"
    using False by (simp add: x2face_recs_def cong: option.case_cong if_cong)
  ultimately show ?thesis by simp
qed

lemma x3face_slots:
  assumes n: "n = - 1 \<or> n = 1"
  shows "map slot_of (x3face_recs e n) = position_slots e (0, 0, n)"
proof (cases "FindNeighbor e 0 0 n")
  case None
  then show ?thesis
    by (simp add: x3face_recs_def position_slots_def emitted_def)
next
  case (Some neibt)
  have cls: "is_face (0, 0, n)"
    using n by (auto simp add: is_face_def is_edge_def)
  have own: "own_side e (0, 0, n) \<longleftrightarrow> own_side e (0, 0, n)"
    using n by (auto simp add: own_side_def)
  have sl: "slots_of e (0, 0, n) = nf1 e * nf2 e"
    using n by (auto simp add: slots_of_def is_face_def is_edge_def)
  show ?thesis
    using Some
    by (simp add: x3face_recs_def position_slots_def emitted_def cls own sl Let_def
          map_concat comp_def)
qed

lemma x3face_direction:
  assumes "r \<in> set (x3face_recs e n)"
  shows "direction r = (0, 0, n)"
  using assms
  by (auto simp add: x3face_recs_def Let_def split: option.splits if_splits)

lemma x3face_without_leaf:
  "x3face_recs (without_leaf e d) n
     = filter (\<lambda>r. direction r \<noteq> d) (x3face_recs e n)"
proof (cases "d = (0, 0, n)")
  case True
  have "filter (\<lambda>r. direction r \<noteq> d) (x3face_recs e n) = []"
    unfolding filter_empty_conv using x3face_direction [of _ e n] True by auto
  moreover have "x3face_recs (without_leaf e d) n = []"
    using True by (simp add: x3face_recs_def)
  ultimately show ?thesis by simp
next
  case False
  have "filter (\<lambda>r. direction r \<noteq> d) (x3face_recs e n) = x3face_recs e n"
    unfolding filter_id_conv using x3face_direction [of _ e n] False by auto
  moreover have "x3face_recs (without_leaf e d) n = x3face_recs e n"
    using False by (simp add: x3face_recs_def cong: option.case_cong if_cong)
  ultimately show ?thesis by simp
qed

lemma x1x2edge_slots:
  assumes m: "m = - 1 \<or> m = 1"
    and n: "n = - 1 \<or> n = 1"
  shows "map slot_of (x1x2edge_recs e m n) = position_slots e (n, m, 0)"
proof (cases "FindNeighbor e n m 0")
  case None
  then show ?thesis
    by (simp add: x1x2edge_recs_def position_slots_def emitted_def)
next
  case (Some neibt)
  have cls: "\<not> is_face (n, m, 0)" "is_edge (n, m, 0)"
    using m n by (auto simp add: is_face_def is_edge_def)
  have own: "own_side e (n, m, 0) \<longleftrightarrow> myox1 e = n \<and> myox2 e = m"
    using m n by (auto simp add: own_side_def)
  have sl: "slots_of e (n, m, 0) = nf2 e"
    using m n by (auto simp add: slots_of_def is_face_def is_edge_def)
  show ?thesis
    using Some
    by (simp add: x1x2edge_recs_def position_slots_def emitted_def cls own sl Let_def
          map_concat comp_def)
qed

lemma x1x2edge_direction:
  assumes "r \<in> set (x1x2edge_recs e m n)"
  shows "direction r = (n, m, 0)"
  using assms
  by (auto simp add: x1x2edge_recs_def Let_def split: option.splits if_splits)

lemma x1x2edge_without_leaf:
  "x1x2edge_recs (without_leaf e d) m n
     = filter (\<lambda>r. direction r \<noteq> d) (x1x2edge_recs e m n)"
proof (cases "d = (n, m, 0)")
  case True
  have "filter (\<lambda>r. direction r \<noteq> d) (x1x2edge_recs e m n) = []"
    unfolding filter_empty_conv using x1x2edge_direction [of _ e m n] True by auto
  moreover have "x1x2edge_recs (without_leaf e d) m n = []"
    using True by (simp add: x1x2edge_recs_def)
  ultimately show ?thesis by simp
next
  case False
  have "filter (\<lambda>r. direction r \<noteq> d) (x1x2edge_recs e m n) = x1x2edge_recs e m n"
    unfolding filter_id_conv using x1x2edge_direction [of _ e m n] False by auto
  moreover have "x1x2edge_recs (without_leaf e d) m n = x1x2edge_recs e m n"
    using False by (simp add: x1x2edge_recs_def cong: option.case_cong if_cong)
  ultimately show ?thesis by simp
qed

lemma x1x3edge_slots:
  assumes m: "m = - 1 \<or> m = 1"
    and n: "n = - 1 \<or> n = 1"
  shows "map slot_of (x1x3edge_recs e m n) = position_slots e (n, 0, m)"
proof (cases "FindNeighbor e n 0 m")
  case None
  then show ?thesis
    by (simp add: x1x3edge_recs_def position_slots_def emitted_def)
next
  case (Some neibt)
  have cls: "\<not> is_face (n, 0, m)" "is_edge (n, 0, m)"
    using m n by (auto simp add: is_face_def is_edge_def)
  have own: "own_side e (n, 0, m) \<longleftrightarrow> myox1 e = n \<and> myox3 e = m"
    using m n by (auto simp add: own_side_def)
  have sl: "slots_of e (n, 0, m) = nf1 e"
    using m n by (auto simp add: slots_of_def is_face_def is_edge_def)
  show ?thesis
    using Some
    by (simp add: x1x3edge_recs_def position_slots_def emitted_def cls own sl Let_def
          map_concat comp_def)
qed

lemma x1x3edge_direction:
  assumes "r \<in> set (x1x3edge_recs e m n)"
  shows "direction r = (n, 0, m)"
  using assms
  by (auto simp add: x1x3edge_recs_def Let_def split: option.splits if_splits)

lemma x1x3edge_without_leaf:
  "x1x3edge_recs (without_leaf e d) m n
     = filter (\<lambda>r. direction r \<noteq> d) (x1x3edge_recs e m n)"
proof (cases "d = (n, 0, m)")
  case True
  have "filter (\<lambda>r. direction r \<noteq> d) (x1x3edge_recs e m n) = []"
    unfolding filter_empty_conv using x1x3edge_direction [of _ e m n] True by auto
  moreover have "x1x3edge_recs (without_leaf e d) m n = []"
    using True by (simp add: x1x3edge_recs_def)
  ultimately show ?thesis by simp
next
  case False
  have "filter (\<lambda>r. direction r \<noteq> d) (x1x3edge_recs e m n) = x1x3edge_recs e m n"
    unfolding filter_id_conv using x1x3edge_direction [of _ e m n] False by auto
  moreover have "x1x3edge_recs (without_leaf e d) m n = x1x3edge_recs e m n"
    using False by (simp add: x1x3edge_recs_def cong: option.case_cong if_cong)
  ultimately show ?thesis by simp
qed

lemma x2x3edge_slots:
  assumes m: "m = - 1 \<or> m = 1"
    and n: "n = - 1 \<or> n = 1"
  shows "map slot_of (x2x3edge_recs e m n) = position_slots e (0, n, m)"
proof (cases "FindNeighbor e 0 n m")
  case None
  then show ?thesis
    by (simp add: x2x3edge_recs_def position_slots_def emitted_def)
next
  case (Some neibt)
  have cls: "\<not> is_face (0, n, m)" "is_edge (0, n, m)"
    using m n by (auto simp add: is_face_def is_edge_def)
  have own: "own_side e (0, n, m) \<longleftrightarrow> myox2 e = n \<and> myox3 e = m"
    using m n by (auto simp add: own_side_def)
  have sl: "slots_of e (0, n, m) = nf1 e"
    using m n by (auto simp add: slots_of_def is_face_def is_edge_def)
  show ?thesis
    using Some
    by (simp add: x2x3edge_recs_def position_slots_def emitted_def cls own sl Let_def
          map_concat comp_def)
qed

lemma x2x3edge_direction:
  assumes "r \<in> set (x2x3edge_recs e m n)"
  shows "direction r = (0, n, m)"
  using assms
  by (auto simp add: x2x3edge_recs_def Let_def split: option.splits if_splits)

lemma x2x3edge_without_leaf:
  "x2x3edge_recs (without_leaf e d) m n
     = filter (\<lambda>r. direction r \<noteq> d) (x2x3edge_recs e m n)"
proof (cases "d = (0, n, m)")
  case True
  have "filter (\<lambda>r. direction r \<noteq> d) (x2x3edge_recs e m n) = []"
    unfolding filter_empty_conv using x2x3edge_direction [of _ e m n] True by auto
  moreover have "x2x3edge_recs (without_leaf e d) m n = []"
    using True by (simp add: x2x3edge_recs_def)
  ultimately show ?thesis by simp
next
  case False
  have "filter (\<lambda>r. direction r \<noteq> d) (x2x3edge_recs e m n) = x2x3edge_recs e m n"
    unfolding filter_id_conv using x2x3edge_direction [of _ e m n] False by auto
  moreover have "x2x3edge_recs (without_leaf e d) m n = x2x3edge_recs e m n"
    using False by (simp add: x2x3edge_recs_def cong: option.case_cong if_cong)
  ultimately show ?thesis by simp
qed

lemma corner_slots:
  assumes l: "l = - 1 \<or> l = 1"
    and m: "m = - 1 \<or> m = 1"
    and n: "n = - 1 \<or> n = 1"
  shows "map slot_of (corner_recs e l m n) = position_slots e (n, m, l)"
proof (cases "FindNeighbor e n m l")
  case None
  then show ?thesis
    by (simp add: corner_recs_def position_slots_def emitted_def)
next
  case (Some neibt)
  have cls: "\<not> is_face (n, m, l)" "\<not> is_edge (n, m, l)"
    using l m n by (auto simp add: is_face_def is_edge_def)
  have own: "own_side e (n, m, l) \<longleftrightarrow> myox1 e = n \<and> myox2 e = m \<and> myox3 e = l"
    using l m n by (auto simp add: own_side_def)
  have sl: "slots_of e (n, m, l) = 1"
    using l m n by (auto simp add: slots_of_def is_face_def is_edge_def)
  show ?thesis
    using Some
    by (simp add: corner_recs_def position_slots_def emitted_def cls own sl Let_def
          map_concat comp_def)
qed

lemma corner_direction:
  assumes "r \<in> set (corner_recs e l m n)"
  shows "direction r = (n, m, l)"
  using assms
  by (auto simp add: corner_recs_def Let_def split: option.splits if_splits)

lemma corner_without_leaf:
  "corner_recs (without_leaf e d) l m n
     = filter (\<lambda>r. direction r \<noteq> d) (corner_recs e l m n)"
proof (cases "d = (n, m, l)")
  case True
  have "filter (\<lambda>r. direction r \<noteq> d) (corner_recs e l m n) = []"
    unfolding filter_empty_conv using corner_direction [of _ e l m n] True by auto
  moreover have "corner_recs (without_leaf e d) l m n = []"
    using True by (simp add: corner_recs_def)
  ultimately show ?thesis by simp
next
  case False
  have "filter (\<lambda>r. direction r \<noteq> d) (corner_recs e l m n) = corner_recs e l m n"
    unfolding filter_id_conv using corner_direction [of _ e l m n] False by auto
  moreover have "corner_recs (without_leaf e d) l m n = corner_recs e l m n"
    using False by (simp add: corner_recs_def cong: option.case_cong if_cong)
  ultimately show ?thesis by simp
qed

lemma all_recs_slots:
  "map slot_of (all_recs e) = concat (map (position_slots e) (scan_order e))"
  by (simp add: all_recs_def face_recs1_def face_recs23_def edge_recs12_def edge_recs13_def
        edge_recs23_def all_corner_recs_def scan_order_def x1face_slots x2face_slots
        x3face_slots x1x2edge_slots x1x3edge_slots x2x3edge_slots corner_slots)

lemma all_recs_without_leaf:
  "all_recs (without_leaf e d) = filter (\<lambda>r. direction r \<noteq> d) (all_recs e)"
  by (simp add: all_recs_def face_recs1_def face_recs23_def edge_recs12_def edge_recs13_def
        edge_recs23_def all_corner_recs_def x1face_without_leaf x2face_without_leaf
        x3face_without_leaf x1x2edge_without_leaf x1x3edge_without_leaf x2x3edge_without_leaf
        corner_without_leaf)

lemma slots_scanned_sum:
  "slots_scanned e = sum_list (map (slots_of e) (scan_order e))"
  by (simp add: slots_scanned_def scan_order_def slots_of_def is_face_def is_edge_def
        nfaces_def)

lemma without_leaf_absent:
  assumes "FindNeighbor e dx dy dz = None"
  shows "without_leaf e (dx, dy, dz) = e"
proof -
  have "(\<lambda>x y z. if (dx, dy, dz) = (x, y, z) then None else FindNeighbor e x y z)
          = FindNeighbor e"
    using assms by (auto simp add: fun_eq_iff)
  then show ?thesis by (simp add: without_leaf_def)
qed

lemma position_slots_bufid:
  assumes "x \<in> set (position_slots e d)"
  shows "snd (snd (snd x))
           = scan_position e (fst (fst x)) (fst (snd (fst x))) (snd (snd (fst x)))
               (fst (snd x)) (fst (snd (snd x)))"
  using assms by (auto simp add: position_slots_def)

lemma record_bufid:
  assumes "r \<in> set (s_neighbor (SearchAndSetNeighbors e))"
  shows "nb_bufid r = scan_position e (nb_ox1 r) (nb_ox2 r) (nb_ox3 r) (nb_fi1 r) (nb_fi2 r)"
proof -
  have "slot_of r \<in> set (map slot_of (all_recs e))"
    using assms by (simp add: SearchAndSetNeighbors_recs)
  then obtain d where "slot_of r \<in> set (position_slots e d)"
    unfolding all_recs_slots by auto
  from position_slots_bufid [OF this] show ?thesis by (simp add: slot_of_def direction_def)
qed

lemma scan_position_config:
  assumes "sb_nx2 e' = sb_nx2 e" "sb_nx3 e' = sb_nx3 e" "sb_multilevel e' = sb_multilevel e"
  shows "scan_position e' = scan_position e"
  using assms by (simp add: scan_position_def nf1_def nf2_def nfaces_def fun_eq_iff)

lemma slots_scanned_config:
  assumes "sb_nx2 e' = sb_nx2 e" "sb_nx3 e' = sb_nx3 e" "sb_multilevel e' = sb_multilevel e"
    "sb_face_only e' = sb_face_only e"
  shows "slots_scanned e' = slots_scanned e"
  using assms by (simp add: slots_scanned_def nf1_def nf2_def nfaces_def)

lemma scan_position_counts_slots:
  "map (\<lambda>d. scan_position e (fst d) (fst (snd d)) (snd (snd d)) 0 0) (scan_order e)
     = map (\<lambda>i. sum_list (map (slots_of e) (take i (scan_order e))))
         [0..<length (scan_order e)]"
proof -
  consider (one) "sb_nx2 e = 1"
    | (faces2) "sb_nx2 e \<noteq> 1" "sb_face_only e" "\<not> sb_nx3 e > 1"
    | (faces3) "sb_nx2 e \<noteq> 1" "sb_face_only e" "sb_nx3 e > 1"
    | (two) "sb_nx2 e \<noteq> 1" "\<not> sb_face_only e" "sb_nx3 e = 1"
    | (flat) "sb_nx2 e \<noteq> 1" "\<not> sb_face_only e" "sb_nx3 e \<noteq> 1" "\<not> sb_nx3 e > 1"
    | (three) "sb_nx2 e \<noteq> 1" "\<not> sb_face_only e" "sb_nx3 e > 1"
    by linarith
  then show ?thesis
  proof cases
    case one
    then show ?thesis
      by (simp add: scan_order_def scan_position_def slots_of_def is_face_def is_edge_def
            nfaces_def upt_rec)
  next
    case faces2
    then show ?thesis
      by (simp add: scan_order_def scan_position_def slots_of_def is_face_def is_edge_def
            nfaces_def upt_rec)
  next
    case faces3
    then show ?thesis
      by (simp add: scan_order_def scan_position_def slots_of_def is_face_def is_edge_def
            nfaces_def upt_rec)
  next
    case two
    then show ?thesis
      by (simp add: scan_order_def scan_position_def slots_of_def is_face_def is_edge_def
            nfaces_def upt_rec)
  next
    case flat
    then show ?thesis
      by (simp add: scan_order_def scan_position_def slots_of_def is_face_def is_edge_def
            nfaces_def upt_rec)
  next
    case three
    then show ?thesis
      by (simp add: scan_order_def scan_position_def slots_of_def is_face_def is_edge_def
            nfaces_def upt_rec)
  qed
qed

lemmas example_defs =
  scan_order_def position_slots_def emitted_def is_face_def is_edge_def slots_of_def
  own_side_def scan_position_def nfaces_def nf1_def nf2_def myox1_def myox2_def myox3_def
  example_env_def interior_env_def example_tree_def without_leaf_def upto_rec1 Let_def

lemma example_run:
  "map slot_of (s_neighbor (SearchAndSetNeighbors example_env))
     = [((1, 0, 0), 0, 0, 4), ((1, 0, 0), 1, 0, 5), ((1, 0, 0), 0, 1, 6),
          ((1, 0, 0), 1, 1, 7), ((0, - 1, 0), 0, 0, 8), ((0, 1, 0), 0, 0, 12),
          ((0, 0, - 1), 0, 0, 16), ((0, 0, 1), 0, 0, 20), ((1, - 1, 0), 0, 0, 26),
          ((1, 1, 0), 0, 0, 30), ((1, 0, 1), 0, 0, 38), ((0, 1, - 1), 0, 0, 42),
          ((0, - 1, 1), 0, 0, 44), ((0, 1, 1), 0, 0, 46), ((1, - 1, 1), 0, 0, 53),
          ((1, 1, 1), 0, 0, 55)]"
  by code_simp

text \<open>
  C8. The records that \<open>SearchAndSetNeighbors\<close> writes are, in scan order, exactly the
  slots \<open>emitted\<close> of the scanned directions, each with the scan position of its direction
  and fine-subdivision indices as bufid, and the counter ends at the sum of the slots of
  all scanned directions. A direction in which \<open>FindNeighbor\<close> returns NULL has no record.
  Taking the leaf of a direction \<open>d\<close> away removes the records of direction \<open>d\<close> and
  changes neither the counter nor any other record. Two blocks that agree on \<open>nx2\<close>, \<open>nx3\<close>,
  \<open>multilevel\<close> and \<open>face_only\<close> end with the same counter and give the same bufid to
  records of the same direction and fine-subdivision indices, whatever their trees.
\<close>

theorem SearchAndSetNeighbors_bufid_by_position:
  "s_bufid (SearchAndSetNeighbors e) = sum_list (map (slots_of e) (scan_order e))
   \<and> map slot_of (s_neighbor (SearchAndSetNeighbors e))
       = concat (map (position_slots e) (scan_order e))
   \<and> (FindNeighbor e dx dy dz = None
        \<longrightarrow> (\<forall>r \<in> set (s_neighbor (SearchAndSetNeighbors e)). direction r \<noteq> (dx, dy, dz)))
   \<and> s_bufid (SearchAndSetNeighbors (without_leaf e d)) = s_bufid (SearchAndSetNeighbors e)
   \<and> s_neighbor (SearchAndSetNeighbors (without_leaf e d))
       = filter (\<lambda>r. direction r \<noteq> d) (s_neighbor (SearchAndSetNeighbors e))
   \<and> (sb_nx2 e' = sb_nx2 e \<and> sb_nx3 e' = sb_nx3 e \<and> sb_multilevel e' = sb_multilevel e
        \<and> sb_face_only e' = sb_face_only e
      \<longrightarrow> s_bufid (SearchAndSetNeighbors e') = s_bufid (SearchAndSetNeighbors e)
          \<and> (\<forall>r \<in> set (s_neighbor (SearchAndSetNeighbors e)).
               \<forall>r' \<in> set (s_neighbor (SearchAndSetNeighbors e')).
                 direction r' = direction r \<and> nb_fi1 r' = nb_fi1 r \<and> nb_fi2 r' = nb_fi2 r
                 \<longrightarrow> nb_bufid r' = nb_bufid r))"
proof (intro conjI impI ballI)
  show "s_bufid (SearchAndSetNeighbors e) = sum_list (map (slots_of e) (scan_order e))"
    by (simp add: SearchAndSetNeighbors_count slots_scanned_sum)
  show "map slot_of (s_neighbor (SearchAndSetNeighbors e))
          = concat (map (position_slots e) (scan_order e))"
    by (simp add: SearchAndSetNeighbors_recs all_recs_slots)
  show "s_bufid (SearchAndSetNeighbors (without_leaf e d)) = s_bufid (SearchAndSetNeighbors e)"
    by (simp add: SearchAndSetNeighbors_count)
  show "s_neighbor (SearchAndSetNeighbors (without_leaf e d))
          = filter (\<lambda>r. direction r \<noteq> d) (s_neighbor (SearchAndSetNeighbors e))"
    by (simp add: SearchAndSetNeighbors_recs all_recs_without_leaf)
next
  fix r
  assume none: "FindNeighbor e dx dy dz = None"
    and r: "r \<in> set (s_neighbor (SearchAndSetNeighbors e))"
  have "all_recs (without_leaf e (dx, dy, dz))
          = filter (\<lambda>r. direction r \<noteq> (dx, dy, dz)) (all_recs e)"
    by (rule all_recs_without_leaf)
  then have "filter (\<lambda>r. direction r \<noteq> (dx, dy, dz)) (all_recs e) = all_recs e"
    unfolding without_leaf_absent [OF none] by (rule sym)
  then have "\<forall>r \<in> set (all_recs e). direction r \<noteq> (dx, dy, dz)"
    unfolding filter_id_conv .
  then show "direction r \<noteq> (dx, dy, dz)"
    using r by (simp add: SearchAndSetNeighbors_recs)
next
  assume cfg: "sb_nx2 e' = sb_nx2 e \<and> sb_nx3 e' = sb_nx3 e \<and> sb_multilevel e' = sb_multilevel e
               \<and> sb_face_only e' = sb_face_only e"
  show "s_bufid (SearchAndSetNeighbors e') = s_bufid (SearchAndSetNeighbors e)"
    using cfg slots_scanned_config [of e' e] by (simp add: SearchAndSetNeighbors_count)
next
  fix r r'
  assume cfg: "sb_nx2 e' = sb_nx2 e \<and> sb_nx3 e' = sb_nx3 e \<and> sb_multilevel e' = sb_multilevel e
               \<and> sb_face_only e' = sb_face_only e"
    and r: "r \<in> set (s_neighbor (SearchAndSetNeighbors e))"
    and r': "r' \<in> set (s_neighbor (SearchAndSetNeighbors e'))"
    and same: "direction r' = direction r \<and> nb_fi1 r' = nb_fi1 r \<and> nb_fi2 r' = nb_fi2 r"
  have "scan_position e' = scan_position e"
    using cfg scan_position_config [of e' e] by simp
  then show "nb_bufid r' = nb_bufid r"
    using record_bufid [OF r] record_bufid [OF r'] same by (simp add: direction_def)
qed


theorem SearchAndSetNeighbors_bufid_by_position_witness:
  "s_bufid (SearchAndSetNeighbors example_env) = 56
   \<and> map slot_of (s_neighbor (SearchAndSetNeighbors example_env))
       = [((1, 0, 0), 0, 0, 4), ((1, 0, 0), 1, 0, 5), ((1, 0, 0), 0, 1, 6),
          ((1, 0, 0), 1, 1, 7), ((0, - 1, 0), 0, 0, 8), ((0, 1, 0), 0, 0, 12),
          ((0, 0, - 1), 0, 0, 16), ((0, 0, 1), 0, 0, 20), ((1, - 1, 0), 0, 0, 26),
          ((1, 1, 0), 0, 0, 30), ((1, 0, 1), 0, 0, 38), ((0, 1, - 1), 0, 0, 42),
          ((0, - 1, 1), 0, 0, 44), ((0, 1, 1), 0, 0, 46), ((1, - 1, 1), 0, 0, 53),
          ((1, 1, 1), 0, 0, 55)]
   \<and> FindNeighbor example_env (- 1) 0 0 = None
   \<and> filter (\<lambda>r. direction r = (- 1, 0, 0)) (s_neighbor (SearchAndSetNeighbors example_env)) = []
   \<and> s_bufid (SearchAndSetNeighbors (without_leaf example_env (1, 0, 0))) = 56
   \<and> map slot_of (s_neighbor (SearchAndSetNeighbors (without_leaf example_env (1, 0, 0))))
       = [((0, - 1, 0), 0, 0, 8), ((0, 1, 0), 0, 0, 12), ((0, 0, - 1), 0, 0, 16),
          ((0, 0, 1), 0, 0, 20), ((1, - 1, 0), 0, 0, 26), ((1, 1, 0), 0, 0, 30),
          ((1, 0, 1), 0, 0, 38), ((0, 1, - 1), 0, 0, 42), ((0, - 1, 1), 0, 0, 44),
          ((0, 1, 1), 0, 0, 46), ((1, - 1, 1), 0, 0, 53), ((1, 1, 1), 0, 0, 55)]
   \<and> sb_nx2 interior_env = sb_nx2 example_env \<and> sb_nx3 interior_env = sb_nx3 example_env
   \<and> sb_multilevel interior_env = sb_multilevel example_env
   \<and> sb_face_only interior_env = sb_face_only example_env
   \<and> s_bufid (SearchAndSetNeighbors interior_env) = 56
   \<and> map slot_of (s_neighbor (SearchAndSetNeighbors interior_env))
       = [((- 1, 0, 0), 0, 0, 0), ((1, 0, 0), 0, 0, 4), ((0, - 1, 0), 0, 0, 8),
          ((0, 1, 0), 0, 0, 12), ((0, 0, - 1), 0, 0, 16), ((0, 0, 1), 0, 0, 20),
          ((- 1, - 1, 0), 0, 0, 24), ((1, - 1, 0), 0, 0, 26),
          ((- 1, 1, 0), 0, 0, 28), ((1, 1, 0), 0, 0, 30), ((- 1, 0, - 1), 0, 0, 32),
          ((1, 0, - 1), 0, 0, 34), ((- 1, 0, 1), 0, 0, 36), ((1, 0, 1), 0, 0, 38),
          ((0, - 1, - 1), 0, 0, 40), ((0, 1, - 1), 0, 0, 42),
          ((0, - 1, 1), 0, 0, 44), ((0, 1, 1), 0, 0, 46),
          ((- 1, - 1, - 1), 0, 0, 48), ((1, - 1, - 1), 0, 0, 49),
          ((- 1, 1, - 1), 0, 0, 50), ((1, 1, - 1), 0, 0, 51),
          ((- 1, - 1, 1), 0, 0, 52), ((1, - 1, 1), 0, 0, 53),
          ((- 1, 1, 1), 0, 0, 54), ((1, 1, 1), 0, 0, 55)]"
proof -
  note t1 = SearchAndSetNeighbors_bufid_by_position
              [where e = example_env and dx = "- 1" and dy = 0 and dz = 0 and d = "(1, 0, 0)"
                 and e' = interior_env]
  note t2 = SearchAndSetNeighbors_bufid_by_position
              [where e = "without_leaf example_env (1, 0, 0)" and dx = "- 1" and dy = 0 and dz = 0
                 and d = "(1, 0, 0)" and e' = interior_env]
  note t3 = SearchAndSetNeighbors_bufid_by_position
              [where e = interior_env and dx = "- 1" and dy = 0 and dz = 0 and d = "(1, 0, 0)"
                 and e' = example_env]
  have none: "FindNeighbor example_env (- 1) 0 0 = None"
    by (simp add: example_env_def example_tree_def)
  have cfg: "sb_nx2 interior_env = sb_nx2 example_env \<and> sb_nx3 interior_env = sb_nx3 example_env
             \<and> sb_multilevel interior_env = sb_multilevel example_env
             \<and> sb_face_only interior_env = sb_face_only example_env"
    by (simp add: interior_env_def example_env_def)
  have n1: "sum_list (map (slots_of example_env) (scan_order example_env)) = 56"
    by (simp add: example_defs)
  have p1: "concat (map (position_slots example_env) (scan_order example_env))
              = [((1, 0, 0), 0, 0, 4), ((1, 0, 0), 1, 0, 5), ((1, 0, 0), 0, 1, 6),
          ((1, 0, 0), 1, 1, 7), ((0, - 1, 0), 0, 0, 8), ((0, 1, 0), 0, 0, 12),
          ((0, 0, - 1), 0, 0, 16), ((0, 0, 1), 0, 0, 20), ((1, - 1, 0), 0, 0, 26),
          ((1, 1, 0), 0, 0, 30), ((1, 0, 1), 0, 0, 38), ((0, 1, - 1), 0, 0, 42),
          ((0, - 1, 1), 0, 0, 44), ((0, 1, 1), 0, 0, 46), ((1, - 1, 1), 0, 0, 53),
          ((1, 1, 1), 0, 0, 55)]"
    by (simp add: example_defs)
  have p2: "concat (map (position_slots (without_leaf example_env (1, 0, 0)))
                      (scan_order (without_leaf example_env (1, 0, 0))))
              = [((0, - 1, 0), 0, 0, 8), ((0, 1, 0), 0, 0, 12), ((0, 0, - 1), 0, 0, 16),
          ((0, 0, 1), 0, 0, 20), ((1, - 1, 0), 0, 0, 26), ((1, 1, 0), 0, 0, 30),
          ((1, 0, 1), 0, 0, 38), ((0, 1, - 1), 0, 0, 42), ((0, - 1, 1), 0, 0, 44),
          ((0, 1, 1), 0, 0, 46), ((1, - 1, 1), 0, 0, 53), ((1, 1, 1), 0, 0, 55)]"
    by (simp add: example_defs)
  have p3: "concat (map (position_slots interior_env) (scan_order interior_env))
              = [((- 1, 0, 0), 0, 0, 0), ((1, 0, 0), 0, 0, 4), ((0, - 1, 0), 0, 0, 8),
          ((0, 1, 0), 0, 0, 12), ((0, 0, - 1), 0, 0, 16), ((0, 0, 1), 0, 0, 20),
          ((- 1, - 1, 0), 0, 0, 24), ((1, - 1, 0), 0, 0, 26),
          ((- 1, 1, 0), 0, 0, 28), ((1, 1, 0), 0, 0, 30), ((- 1, 0, - 1), 0, 0, 32),
          ((1, 0, - 1), 0, 0, 34), ((- 1, 0, 1), 0, 0, 36), ((1, 0, 1), 0, 0, 38),
          ((0, - 1, - 1), 0, 0, 40), ((0, 1, - 1), 0, 0, 42),
          ((0, - 1, 1), 0, 0, 44), ((0, 1, 1), 0, 0, 46),
          ((- 1, - 1, - 1), 0, 0, 48), ((1, - 1, - 1), 0, 0, 49),
          ((- 1, 1, - 1), 0, 0, 50), ((1, 1, - 1), 0, 0, 51),
          ((- 1, - 1, 1), 0, 0, 52), ((1, - 1, 1), 0, 0, 53),
          ((- 1, 1, 1), 0, 0, 54), ((1, 1, 1), 0, 0, 55)]"
    by (simp add: example_defs)
  have a1: "s_bufid (SearchAndSetNeighbors example_env) = 56"
    using t1 n1 by simp
  have a2: "map slot_of (s_neighbor (SearchAndSetNeighbors example_env))
              = [((1, 0, 0), 0, 0, 4), ((1, 0, 0), 1, 0, 5), ((1, 0, 0), 0, 1, 6),
          ((1, 0, 0), 1, 1, 7), ((0, - 1, 0), 0, 0, 8), ((0, 1, 0), 0, 0, 12),
          ((0, 0, - 1), 0, 0, 16), ((0, 0, 1), 0, 0, 20), ((1, - 1, 0), 0, 0, 26),
          ((1, 1, 0), 0, 0, 30), ((1, 0, 1), 0, 0, 38), ((0, 1, - 1), 0, 0, 42),
          ((0, - 1, 1), 0, 0, 44), ((0, 1, 1), 0, 0, 46), ((1, - 1, 1), 0, 0, 53),
          ((1, 1, 1), 0, 0, 55)]"
    using t1 p1 by simp
  have a3: "filter (\<lambda>r. direction r = (- 1, 0, 0))
              (s_neighbor (SearchAndSetNeighbors example_env)) = []"
    unfolding filter_empty_conv using t1 none by blast
  have a4: "s_bufid (SearchAndSetNeighbors (without_leaf example_env (1, 0, 0))) = 56"
    using t1 a1 by simp
  have a5: "map slot_of (s_neighbor (SearchAndSetNeighbors (without_leaf example_env (1, 0, 0))))
              = [((0, - 1, 0), 0, 0, 8), ((0, 1, 0), 0, 0, 12), ((0, 0, - 1), 0, 0, 16),
          ((0, 0, 1), 0, 0, 20), ((1, - 1, 0), 0, 0, 26), ((1, 1, 0), 0, 0, 30),
          ((1, 0, 1), 0, 0, 38), ((0, 1, - 1), 0, 0, 42), ((0, - 1, 1), 0, 0, 44),
          ((0, 1, 1), 0, 0, 46), ((1, - 1, 1), 0, 0, 53), ((1, 1, 1), 0, 0, 55)]"
    using t2 p2 by simp
  have a6: "s_bufid (SearchAndSetNeighbors interior_env) = 56"
    using t1 cfg a1 by simp
  have a7: "map slot_of (s_neighbor (SearchAndSetNeighbors interior_env))
              = [((- 1, 0, 0), 0, 0, 0), ((1, 0, 0), 0, 0, 4), ((0, - 1, 0), 0, 0, 8),
          ((0, 1, 0), 0, 0, 12), ((0, 0, - 1), 0, 0, 16), ((0, 0, 1), 0, 0, 20),
          ((- 1, - 1, 0), 0, 0, 24), ((1, - 1, 0), 0, 0, 26),
          ((- 1, 1, 0), 0, 0, 28), ((1, 1, 0), 0, 0, 30), ((- 1, 0, - 1), 0, 0, 32),
          ((1, 0, - 1), 0, 0, 34), ((- 1, 0, 1), 0, 0, 36), ((1, 0, 1), 0, 0, 38),
          ((0, - 1, - 1), 0, 0, 40), ((0, 1, - 1), 0, 0, 42),
          ((0, - 1, 1), 0, 0, 44), ((0, 1, 1), 0, 0, 46),
          ((- 1, - 1, - 1), 0, 0, 48), ((1, - 1, - 1), 0, 0, 49),
          ((- 1, 1, - 1), 0, 0, 50), ((1, 1, - 1), 0, 0, 51),
          ((- 1, - 1, 1), 0, 0, 52), ((1, - 1, 1), 0, 0, 53),
          ((- 1, 1, 1), 0, 0, 54), ((1, 1, 1), 0, 0, 55)]"
    using t3 p3 by simp
  show ?thesis
    using a1 a2 none a3 a4 a5 cfg a6 a7 by simp
qed



end
